theory Spec2Isabelle
  imports Complex_Main
begin

section \<open>SentinalX: the streaming risk pipeline\<close>

text \<open>
  A shallow embedding of the client pipeline (feature extractor, baseline builder,
  activity shift detector, risk engine) and of the server-side anomaly validator.

  Conventions of the embedding:
  \<^item> a Python \<open>float\<close> is a \<open>real\<close>: arithmetic is exact, and the values \<open>nan\<close> and
    \<open>inf\<close> are not represented; a Python \<open>int\<close> is an \<open>int\<close>, a length is a \<open>nat\<close>;
  \<^item> a class is a record of its instance attributes, a method takes the object and
    returns the updated object next to its result; the leading underscore of a
    private attribute or method is dropped;
  \<^item> a raised exception is the left injection of a sum (\<open>py_error + 'a\<close>);
  \<^item> the \<open>hasattr\<close> tests on attributes that the class of the object declares are
    true and are left out; the clock default of \<open>compute_features\<close> is its argument;
  \<^item> logging is not modelled.
\<close>

datatype py_error = ZeroDivisionError | AttributeError | ValueError

subsection \<open>client/feature\_extractor.py: FeatureVector\<close>

record FeatureVector =
  avg_typing_speed :: real
  avg_idle_duration :: real
  focus_loss_count :: int
  avg_mouse_speed :: real
  inter_key_interval :: real
  window_start :: real
  window_end :: real
  key_press_count :: int

text \<open>The dataclass defaults: \<open>FeatureVector()\<close>.\<close>

definition FeatureVector_init :: FeatureVector where
  "FeatureVector_init =
     \<lparr>avg_typing_speed = 0, avg_idle_duration = 0, focus_loss_count = 0,
      avg_mouse_speed = 0, inter_key_interval = 0, window_start = 0, window_end = 0,
      key_press_count = 0\<rparr>"

subsection \<open>client/baseline\_builder.py: BaselineProfile\<close>

record BaselineProfile =
  bl_typing_speed :: real
  bl_idle_duration :: real
  bl_focus_rate :: real

subsection \<open>client/activity\_shift\_detector.py\<close>

record AnomalyScores =
  idle_burst :: real
  focus_instability :: real
  behavioral_drift :: real
  overall :: real

definition AnomalyScores_init :: AnomalyScores where
  "AnomalyScores_init =
     \<lparr>idle_burst = 0, focus_instability = 0, behavioral_drift = 0, overall = 0\<rparr>"

record ActivityShiftDetector =
  baseline :: "BaselineProfile option"
  recent_scores :: "real list"
  max_history :: nat
  idle_multiplier :: real
  typing_speed_multiplier :: real
  focus_rate_multiplier :: real
  drift_threshold :: real
  idle_burst_scale :: real
  focus_scale :: real
  drift_scale :: real

text \<open>\<open>ActivityShiftDetector.__init__(baseline)\<close>.\<close>

definition ActivityShiftDetector_init :: "BaselineProfile option \<Rightarrow> ActivityShiftDetector" where
  "ActivityShiftDetector_init b =
     \<lparr>baseline = b, recent_scores = [], max_history = 10,
      idle_multiplier = 12 / 10, typing_speed_multiplier = 13 / 10,
      focus_rate_multiplier = 15 / 10, drift_threshold = 3 / 10,
      idle_burst_scale = 70, focus_scale = 70, drift_scale = 70\<rparr>"

text \<open>Python's float division raises on a zero divisor.\<close>

definition py_div :: "real \<Rightarrow> real \<Rightarrow> py_error + real" where
  "py_div a b = (if b = 0 then Inl ZeroDivisionError else Inr (a / b))"

text \<open>Sequencing: an exception raised by the first computation ends the second.\<close>

definition py_bind :: "py_error + 'a \<Rightarrow> ('a \<Rightarrow> py_error + 'b) \<Rightarrow> py_error + 'b" where
  "py_bind m f = (case m of Inl e \<Rightarrow> Inl e | Inr v \<Rightarrow> f v)"

text \<open>
  Rule A, \<open>_detect_idle_burst\<close>. The method reads \<open>self._baseline\<close> without a test;
  on \<open>None\<close> the attribute access raises.
\<close>

definition detect_idle_burst :: "ActivityShiftDetector \<Rightarrow> FeatureVector \<Rightarrow> py_error + real" where
  "detect_idle_burst d features =
     (case baseline d of
        None \<Rightarrow> Inl AttributeError
      | Some b \<Rightarrow>
          (let idle_threshold = bl_idle_duration b * idle_multiplier d in
           if avg_idle_duration features > idle_threshold then
             (let typing_threshold = bl_typing_speed b * typing_speed_multiplier d in
              if avg_typing_speed features > typing_threshold then
                py_bind (py_div (avg_typing_speed features) (bl_typing_speed b)) (\<lambda>ratio.
                  let raw_score = (ratio - typing_speed_multiplier d) * 100 in
                  Inr (min (idle_burst_scale d) (max 0 raw_score)))
              else Inr 0)
           else Inr 0))"

text \<open>Rule B, \<open>_detect_focus_instability\<close>.\<close>

definition detect_focus_instability :: "ActivityShiftDetector \<Rightarrow> FeatureVector \<Rightarrow> py_error + real" where
  "detect_focus_instability d features =
     (case baseline d of
        None \<Rightarrow> Inl AttributeError
      | Some b \<Rightarrow>
          (let window_duration = window_end features - window_start features in
           py_bind
             (if window_duration > 0
              then py_bind (py_div 60 window_duration) (\<lambda>q.
                     Inr (real_of_int (focus_loss_count features) * q))
              else Inr 0)
             (\<lambda>focus_rate.
                let focus_threshold = bl_focus_rate b * focus_rate_multiplier d in
                if focus_rate > focus_threshold \<and> bl_focus_rate b > 0 then
                  py_bind (py_div focus_rate (bl_focus_rate b)) (\<lambda>ratio.
                    let raw_score = (ratio - focus_rate_multiplier d) * 70 in
                    Inr (min (focus_scale d) (max 0 raw_score)))
                else Inr 0)))"

text \<open>Rule C, \<open>_detect_behavioral_drift\<close>.\<close>

definition detect_behavioral_drift :: "ActivityShiftDetector \<Rightarrow> FeatureVector \<Rightarrow> py_error + real" where
  "detect_behavioral_drift d features =
     (case baseline d of
        None \<Rightarrow> Inl AttributeError
      | Some b \<Rightarrow>
          if bl_typing_speed b \<le> 0 then Inr 0
          else
            (let deviation = \<bar>avg_typing_speed features - bl_typing_speed b\<bar> in
             py_bind (py_div deviation (bl_typing_speed b)) (\<lambda>deviation_pct.
               if deviation_pct > drift_threshold d then
                 (let raw_score = (deviation_pct - drift_threshold d) * 200 in
                  Inr (min (drift_scale d) (max 0 raw_score)))
               else Inr 0)))"

text \<open>
  \<open>compute_scores\<close>: zeros without a baseline; otherwise the three rules in the order
  of the source, their maximum, and the bounded list of recent overall scores
  (\<open>append\<close>, then \<open>pop(0)\<close> once the list is longer than \<open>_max_history\<close>).
\<close>

definition push_recent :: "ActivityShiftDetector \<Rightarrow> real \<Rightarrow> ActivityShiftDetector" where
  "push_recent d v =
     (let rs = recent_scores d @ [v] in
      d\<lparr>recent_scores := (if length rs > max_history d then tl rs else rs)\<rparr>)"

definition compute_scores ::
  "ActivityShiftDetector \<Rightarrow> FeatureVector \<Rightarrow> py_error + (AnomalyScores \<times> ActivityShiftDetector)" where
  "compute_scores d features =
     (case baseline d of
        None \<Rightarrow> Inr (AnomalyScores_init, d)
      | Some b \<Rightarrow>
          py_bind (detect_idle_burst d features) (\<lambda>ib.
          py_bind (detect_focus_instability d features) (\<lambda>fi.
          py_bind (detect_behavioral_drift d features) (\<lambda>bd.
            let ov = max ib (max fi bd) in
            Inr (\<lparr>idle_burst = ib, focus_instability = fi,
                  behavioral_drift = bd, overall = ov\<rparr>,
                 push_recent d ov)))))"

subsection \<open>client/risk\_engine.py\<close>

record RiskEngine =
  smoothing_window :: nat
  risk_history :: "real list"
  last_raw_risk :: real
  last_smoothed_risk :: real
  weight_idle_burst :: real
  weight_focus_instability :: real
  weight_behavioral_drift :: real

text \<open>
  \<open>RiskEngine.__init__(smoothing_window)\<close>; \<open>deque(maxlen=n)\<close> raises \<open>ValueError\<close>
  for a negative \<open>n\<close>, so the window of an engine that exists is a natural number.
\<close>

definition RiskEngine_init :: "int \<Rightarrow> py_error + RiskEngine" where
  "RiskEngine_init w =
     (if w < 0 then Inl ValueError
      else Inr \<lparr>smoothing_window = nat w, risk_history = [], last_raw_risk = 0,
                last_smoothed_risk = 0, weight_idle_burst = 4 / 10,
                weight_focus_instability = 35 / 100, weight_behavioral_drift = 25 / 100\<rparr>)"

text \<open>
  \<open>deque.append\<close> on a deque with \<open>maxlen\<close>: the item is added on the right and, when
  the deque is then longer than \<open>maxlen\<close>, one item is dropped on the left.
\<close>

definition deque_append :: "nat \<Rightarrow> 'a list \<Rightarrow> 'a \<Rightarrow> 'a list" where
  "deque_append maxlen xs x =
     (let ys = xs @ [x] in if length ys > maxlen then tl ys else ys)"

definition weighted_raw :: "RiskEngine \<Rightarrow> AnomalyScores \<Rightarrow> real" where
  "weighted_raw e anomaly_scores =
     max 0 (min 100
       (weight_idle_burst e * idle_burst anomaly_scores +
        weight_focus_instability e * focus_instability anomaly_scores +
        weight_behavioral_drift e * behavioral_drift anomaly_scores))"

definition compute_risk :: "RiskEngine \<Rightarrow> AnomalyScores \<Rightarrow> py_error + (real \<times> RiskEngine)" where
  "compute_risk e anomaly_scores =
     (let raw_risk = weighted_raw e anomaly_scores;
          e1 = e\<lparr>last_raw_risk := raw_risk\<rparr>;
          e2 = e1\<lparr>risk_history := deque_append (smoothing_window e1) (risk_history e1) raw_risk\<rparr>;
          h = risk_history e2
      in py_bind
           (if length h > 0 then
              (if length h = 1 then Inr raw_risk
               else py_bind (py_div (sum_list (butlast h)) (real (length h) - 1)) (\<lambda>history_avg.
                      Inr ((6 / 10) * raw_risk + (4 / 10) * history_avg)))
            else Inr raw_risk)
           (\<lambda>smoothed. Inr (smoothed, e2\<lparr>last_smoothed_risk := smoothed\<rparr>)))"

text \<open>The properties \<open>current_risk\<close> and \<open>raw_risk\<close>, and \<open>reset\<close>.\<close>

definition current_risk :: "RiskEngine \<Rightarrow> real" where
  "current_risk e = last_smoothed_risk e"

definition raw_risk :: "RiskEngine \<Rightarrow> real" where
  "raw_risk e = last_raw_risk e"

definition RiskEngine_reset :: "RiskEngine \<Rightarrow> RiskEngine" where
  "RiskEngine_reset e = e\<lparr>risk_history := [], last_raw_risk := 0, last_smoothed_risk := 0\<rparr>"

text \<open>Consecutive calls of \<open>compute_risk\<close>, returning the last smoothed value.\<close>

fun compute_risk_seq ::
  "RiskEngine \<Rightarrow> AnomalyScores list \<Rightarrow> py_error + (real option \<times> RiskEngine)" where
  "compute_risk_seq e [] = Inr (None, e)"
| "compute_risk_seq e (s # ss) =
     py_bind (compute_risk e s) (\<lambda>(v, e').
       if ss = [] then Inr (Some v, e') else compute_risk_seq e' ss)"

text \<open>
  The smoothed value as a function of the raw score \<open>r\<close> and of the history after
  the append, and the invariant used for repeated equal raw scores: a history within
  its capacity \<open>w\<close> whose last \<open>min k w\<close> entries are \<open>r\<close>.
\<close>

definition smoothed_value :: "real \<Rightarrow> real list \<Rightarrow> real" where
  "smoothed_value r h =
     (if length h \<le> 1 then r
      else (6 / 10) * r + (4 / 10) * (sum_list (butlast h) / (real (length h) - 1)))"

definition tail_const :: "nat \<Rightarrow> real \<Rightarrow> nat \<Rightarrow> real list \<Rightarrow> bool" where
  "tail_const w r k h \<longleftrightarrow> length h \<le> w \<and> (\<exists>pre. h = pre @ replicate (min k w) r)"

subsection \<open>client/baseline\_builder.py\<close>

text \<open>
  The fields of \<open>BaselineProfile\<close> above carry the prefix \<open>bl_\<close> and the builder's
  \<open>_baseline\<close> is \<open>built\<close>, since \<open>FeatureVector\<close> and the detector use the same
  attribute names.
\<close>

record BaselineBuilder =
  calibration_duration :: real
  feature_history :: "FeatureVector list"
  built :: "BaselineProfile option"
  calibration_start :: "real option"
  min_samples_required :: nat

definition BaselineBuilder_init :: "real \<Rightarrow> BaselineBuilder" where
  "BaselineBuilder_init duration =
     \<lparr>calibration_duration = duration, feature_history = [], built = None,
      calibration_start = None, min_samples_required = 5\<rparr>"

definition start_calibration :: "BaselineBuilder \<Rightarrow> real \<Rightarrow> BaselineBuilder" where
  "start_calibration b start_time =
     b\<lparr>feature_history := [], built := None, calibration_start := Some start_time\<rparr>"

text \<open>\<open>_has_typing_data\<close>: the loop returns at the first sample that qualifies.\<close>

fun has_typing_data_loop :: "FeatureVector list \<Rightarrow> bool" where
  "has_typing_data_loop [] = False"
| "has_typing_data_loop (fv # fvs) =
     (if avg_typing_speed fv > 5 then True
      else if key_press_count fv > 2 then True
      else has_typing_data_loop fvs)"

definition has_typing_data :: "BaselineBuilder \<Rightarrow> bool" where
  "has_typing_data b = has_typing_data_loop (feature_history b)"

text \<open>The filter of \<open>_build_baseline\<close> (an \<open>if\<close>/\<open>elif\<close> that appends in both branches).\<close>

fun valid_features_loop :: "FeatureVector list \<Rightarrow> FeatureVector list" where
  "valid_features_loop [] = []"
| "valid_features_loop (fv # fvs) =
     (if avg_typing_speed fv > 0 then fv # valid_features_loop fvs
      else if key_press_count fv > 0 then fv # valid_features_loop fvs
      else valid_features_loop fvs)"

text \<open>
  The aggregation of \<open>_build_baseline\<close> over the chosen samples: the three running
  totals, the averages with their fallbacks, and the focus rate normalised with the
  window length of the first sample (30 seconds when that length is not positive).
\<close>

definition aggregate_baseline :: "FeatureVector list \<Rightarrow> py_error + BaselineProfile" where
  "aggregate_baseline valid_features =
     (let total_typing_speed = foldl (\<lambda>t fv. t + avg_typing_speed fv) 0 valid_features;
          total_idle_duration = foldl (\<lambda>t fv. t + avg_idle_duration fv) 0 valid_features;
          total_focus_loss = foldl (\<lambda>t fv. t + real_of_int (focus_loss_count fv)) 0 valid_features;
          valid_count = length valid_features
      in
      py_bind (if valid_count > 0 then py_div total_typing_speed (real valid_count)
               else Inr 150) (\<lambda>avg_speed.
      py_bind (if valid_count > 0 then py_div total_idle_duration (real valid_count)
               else Inr 2) (\<lambda>avg_idle.
      py_bind (if valid_count > 0 then
                 py_bind (py_div total_focus_loss (real valid_count)) (\<lambda>avg_focus_per_window.
                   let wd = window_end (hd valid_features) - window_start (hd valid_features);
                       window_duration = (if wd \<le> 0 then 30 else wd)
                   in py_bind (py_div 60 window_duration) (\<lambda>q.
                        Inr (avg_focus_per_window * q)))
               else Inr (1 / 2)) (\<lambda>avg_focus.
      Inr \<lparr>bl_typing_speed = avg_speed, bl_idle_duration = avg_idle,
           bl_focus_rate = avg_focus\<rparr>))))"

definition build_baseline :: "BaselineBuilder \<Rightarrow> py_error + BaselineBuilder" where
  "build_baseline b =
     (if feature_history b = [] then
        Inr (b\<lparr>built := Some \<lparr>bl_typing_speed = 150, bl_idle_duration = 2,
                               bl_focus_rate = 1 / 2\<rparr>\<rparr>)
      else
        (let valid_features = valid_features_loop (feature_history b) in
         if valid_features = [] \<and> \<not> length (feature_history b) \<ge> 10 then Inr b
         else
           py_bind (aggregate_baseline
                      (if valid_features = [] then feature_history b else valid_features))
             (\<lambda>profile. Inr (b\<lparr>built := Some profile, feature_history := []\<rparr>))))"

definition update :: "BaselineBuilder \<Rightarrow> FeatureVector \<Rightarrow> real \<Rightarrow> py_error + BaselineBuilder" where
  "update b features current_time =
     (if built b \<noteq> None then Inr b
      else
        (case calibration_start b of
           None \<Rightarrow> Inr (start_calibration b current_time)
         | Some t0 \<Rightarrow>
             (let time_in_calibration = current_time - t0 in
              if time_in_calibration \<le> calibration_duration b then
                (let b1 = b\<lparr>feature_history := feature_history b @ [features]\<rparr> in
                 if length (feature_history b1) \<ge> min_samples_required b1 \<and>
                    time_in_calibration \<ge> calibration_duration b1 * (5 / 10)
                 then (if has_typing_data b1 then build_baseline b1 else Inr b1)
                 else Inr b1)
              else build_baseline b)))"

definition is_calibrated :: "BaselineBuilder \<Rightarrow> bool" where
  "is_calibrated b = (built b \<noteq> None)"

definition BaselineBuilder_reset :: "BaselineBuilder \<Rightarrow> BaselineBuilder" where
  "BaselineBuilder_reset b =
     b\<lparr>feature_history := [], built := None, calibration_start := None\<rparr>"

text \<open>
  A session of the builder: calls of its public methods on a fresh builder. An
  exception ends the session.
\<close>

datatype builder_call = Update FeatureVector real | Start_calibration real | Reset

fun builder_step :: "BaselineBuilder \<Rightarrow> builder_call \<Rightarrow> py_error + BaselineBuilder" where
  "builder_step b (Update f t) = update b f t"
| "builder_step b (Start_calibration t) = Inr (start_calibration b t)"
| "builder_step b Reset = Inr (BaselineBuilder_reset b)"

fun run_builder :: "BaselineBuilder \<Rightarrow> builder_call list \<Rightarrow> py_error + BaselineBuilder" where
  "run_builder b [] = Inr b"
| "run_builder b (c # cs) = py_bind (builder_step b c) (\<lambda>b'. run_builder b' cs)"

text \<open>
  The samples observed during a calibration, read off the calls alone: the feature
  vectors (with their times) passed to \<open>update\<close> since the call that started the
  calibration in progress, which is a \<open>start_calibration\<close> or the first \<open>update\<close> of a
  builder that has none running (that vector is not a sample). \<open>observed\<close> is \<open>None\<close>
  while no calibration was started. A sample counts for a calibration started at
  \<open>t0\<close> with duration \<open>d\<close> when it arrives at most \<open>d\<close> after \<open>t0\<close>.
\<close>

fun observe_step ::
  "(real \<times> (FeatureVector \<times> real) list) option \<Rightarrow> builder_call \<Rightarrow>
   (real \<times> (FeatureVector \<times> real) list) option" where
  "observe_step None (Update f t) = Some (t, [])"
| "observe_step (Some (t0, xs)) (Update f t) = Some (t0, xs @ [(f, t)])"
| "observe_step g (Start_calibration t) = Some (t, [])"
| "observe_step g Reset = None"

definition observed ::
  "builder_call list \<Rightarrow> (real \<times> (FeatureVector \<times> real) list) option" where
  "observed calls = foldl observe_step None calls"

definition in_window :: "real \<Rightarrow> real \<Rightarrow> FeatureVector \<times> real \<Rightarrow> bool" where
  "in_window d t0 x \<longleftrightarrow> snd x - t0 \<le> d"

subsection \<open>shared/models.py: events\<close>

datatype EventType =
  KEY_PRESS | KEY_RELEASE | MOUSE_MOVE | FOCUS_LOST | FOCUS_GAINED | IDLE_PERIOD

text \<open>
  The event classes: every event has a timestamp and a type; a mouse event adds the
  coordinates, a focus event the flag \<open>lost_focus\<close>, an idle event the duration. The
  type of an event is a field of its own, not fixed by its class.
\<close>

datatype Event =
  BaseEvent real EventType
| KeystrokeEvent real EventType
| MouseEvent real EventType int int
| FocusEvent real EventType bool
| IdleEvent real EventType real

fun ev_timestamp :: "Event \<Rightarrow> real" where
  "ev_timestamp (BaseEvent t k) = t"
| "ev_timestamp (KeystrokeEvent t k) = t"
| "ev_timestamp (MouseEvent t k x y) = t"
| "ev_timestamp (FocusEvent t k l) = t"
| "ev_timestamp (IdleEvent t k d) = t"

fun ev_type :: "Event \<Rightarrow> EventType" where
  "ev_type (BaseEvent t k) = k"
| "ev_type (KeystrokeEvent t k) = k"
| "ev_type (MouseEvent t k x y) = k"
| "ev_type (FocusEvent t k l) = k"
| "ev_type (IdleEvent t k d) = k"

subsection \<open>client/feature\_extractor.py\<close>

record FeatureExtractor =
  window_duration :: real
  event_buffer :: "Event list"


text \<open>
  The out-of-order branch of \<open>add_event\<close>: the event goes before the first buffered
  event with a later timestamp; when the loop finds none, nothing is inserted.
\<close>

fun insert_out_of_order :: "Event \<Rightarrow> Event list \<Rightarrow> Event list" where
  "insert_out_of_order event [] = []"
| "insert_out_of_order event (e # es) =
     (if ev_timestamp event < ev_timestamp e then event # e # es
      else e # insert_out_of_order event es)"

definition add_event :: "FeatureExtractor \<Rightarrow> Event \<Rightarrow> FeatureExtractor" where
  "add_event fe event =
     (if event_buffer fe = [] \<or> ev_timestamp event \<ge> ev_timestamp (last (event_buffer fe))
      then fe\<lparr>event_buffer := event_buffer fe @ [event]\<rparr>
      else fe\<lparr>event_buffer := insert_out_of_order event (event_buffer fe)\<rparr>)"

text \<open>\<open>_prune_buffer\<close>: \<open>popleft\<close> while the oldest buffered event is before the cutoff.\<close>

definition prune_buffer :: "FeatureExtractor \<Rightarrow> real \<Rightarrow> FeatureExtractor" where
  "prune_buffer fe current_time =
     (let cutoff = current_time - window_duration fe in
      fe\<lparr>event_buffer := dropWhile (\<lambda>e. ev_timestamp e < cutoff) (event_buffer fe)\<rparr>)"

text \<open>The pieces of \<open>compute_features\<close>, in the order of the source.\<close>

definition press_timestamps :: "Event list \<Rightarrow> real list" where
  "press_timestamps window_events =
     map ev_timestamp (filter (\<lambda>ev. ev_type ev = KEY_PRESS) window_events)"

definition intervals :: "real list \<Rightarrow> real list" where
  "intervals ps = map (\<lambda>i. ps ! (i + 1) - ps ! i) [0 ..< length ps - 1]"

fun idle_durations :: "Event list \<Rightarrow> real list" where
  "idle_durations [] = []"
| "idle_durations (IdleEvent t k d # evs) = d # idle_durations evs"
| "idle_durations (ev # evs) = idle_durations evs"

fun mouse_positions :: "Event list \<Rightarrow> (real \<times> int \<times> int) list" where
  "mouse_positions [] = []"
| "mouse_positions (MouseEvent t k x y # evs) =
     (if k = MOUSE_MOVE then (t, x, y) # mouse_positions evs else mouse_positions evs)"
| "mouse_positions (ev # evs) = mouse_positions evs"

fun total_distance :: "(real \<times> int \<times> int) list \<Rightarrow> real" where
  "total_distance ((t1, x1, y1) # (t2, x2, y2) # ps) =
     sqrt (real_of_int ((x2 - x1) * (x2 - x1) + (y2 - y1) * (y2 - y1))) +
     total_distance ((t2, x2, y2) # ps)"
| "total_distance ps = 0"

definition compute_features ::
  "FeatureExtractor \<Rightarrow> real \<Rightarrow> py_error + (FeatureVector \<times> FeatureExtractor)" where
  "compute_features fe current_time =
     (let fe1 = prune_buffer fe current_time;
          window_events = event_buffer fe1;
          fv0 = FeatureVector_init\<lparr>window_start := current_time - window_duration fe1,
                                   window_end := current_time\<rparr>;
          ps = press_timestamps window_events;
          fv1 = fv0\<lparr>key_press_count := int (length ps)\<rparr>
      in
      py_bind
        (if length ps \<ge> 2 then
           py_bind (py_div (sum_list (intervals ps)) (real (length (intervals ps)))) (\<lambda>iki.
             let fv2 = fv1\<lparr>inter_key_interval := iki\<rparr>;
                 window_len = current_time - window_start fv2
             in if window_len > 0 then
                  py_bind (py_div (real (length ps)) window_len) (\<lambda>q.
                    Inr (fv2\<lparr>avg_typing_speed := q * 60\<rparr>))
                else Inr fv2)
         else Inr (fv1\<lparr>inter_key_interval := 0, avg_typing_speed := 0\<rparr>))
        (\<lambda>fv3.
      py_bind
        (let ds = idle_durations window_events in
         if ds \<noteq> [] then py_div (sum_list ds) (real (length ds)) else Inr 0)
        (\<lambda>idle.
      let fv4 = fv3\<lparr>avg_idle_duration := idle\<rparr>;
          fv5 = fv4\<lparr>focus_loss_count :=
                       int (length (filter (\<lambda>ev. ev_type ev = FOCUS_LOST) window_events))\<rparr>;
          ms = mouse_positions window_events
      in
      py_bind
        (if length ms \<ge> 2 then
           (let time_span = fst (last ms) - fst (hd ms) in
            if time_span > 0 then
              py_bind (py_div (total_distance ms) time_span) (\<lambda>speed.
                Inr (fv5\<lparr>avg_mouse_speed := speed\<rparr>))
            else Inr fv5)
         else Inr (fv5\<lparr>avg_mouse_speed := 0\<rparr>))
        (\<lambda>fv. Inr (fv, fe1)))))"






subsection \<open>shared/models.py: the risk payload\<close>

text \<open>
  A Python \<open>str\<close> is a sequence of Unicode code points. \<open>RiskData\<close> carries the
  pydantic \<open>AnomalyScores\<close>, which has the fields of the client's dataclass; the
  record above stands for both. The field constraints of the pydantic models are
  not part of the record: the validator below receives any values.
\<close>

type_synonym py_str = "nat list"

record RiskData =
  timestamp :: real
  risk_score :: real
  anomaly_scores :: AnomalyScores
  session_id :: py_str
  source :: "py_str option"



subsection \<open>server/anomaly\_validator.py\<close>






subsection \<open>Concrete inputs\<close>

text \<open>
  The baseline and the features of the spec's scenario A, a sample with a single key
  press (typing speed 0), the baseline a calibration of such samples yields, and a
  sample with typing activity.
\<close>

definition scenario_baseline :: BaselineProfile where
  "scenario_baseline = \<lparr>bl_typing_speed = 200, bl_idle_duration = 2, bl_focus_rate = 1 / 2\<rparr>"

definition scenario_a_features :: FeatureVector where
  "scenario_a_features = FeatureVector_init\<lparr>avg_typing_speed := 400, avg_idle_duration := 5,
      window_start := 0, window_end := 30\<rparr>"

definition single_press_sample :: FeatureVector where
  "single_press_sample = FeatureVector_init\<lparr>avg_idle_duration := 2, window_start := -20,
      window_end := 10, key_press_count := 1\<rparr>"

definition zero_baseline :: BaselineProfile where
  "zero_baseline = \<lparr>bl_typing_speed = 0, bl_idle_duration = 2, bl_focus_rate = 0\<rparr>"

definition typing_sample :: FeatureVector where
  "typing_sample = FeatureVector_init\<lparr>avg_typing_speed := 240, avg_idle_duration := 1,
      window_start := 70, window_end := 100, key_press_count := 120\<rparr>"

text \<open>A builder 40 seconds into calibration that holds four single-press samples.\<close>

definition four_samples :: BaselineBuilder where
  "four_samples = (BaselineBuilder_init 180)\<lparr>calibration_start := Some 0,
      feature_history := [single_press_sample, single_press_sample, single_press_sample,
                          single_press_sample]\<rparr>"

text \<open>
  A session that calibrates early: four single-press samples, then a sample with
  typing activity at 100 of 180 seconds; and the baseline it builds.
\<close>

definition early_calls :: "builder_call list" where
  "early_calls =
     [Update single_press_sample 0, Update single_press_sample 10, Update single_press_sample 20,
      Update single_press_sample 30, Update single_press_sample 40, Update typing_sample 100]"

definition early_baseline :: BaselineProfile where
  "early_baseline = \<lparr>bl_typing_speed = 48, bl_idle_duration = 9 / 5, bl_focus_rate = 0\<rparr>"

text \<open>Anomaly scores, and fresh engines with the windows 3, 5 and 0.\<close>

definition calm :: AnomalyScores where
  "calm = AnomalyScores_init"

definition hot :: AnomalyScores where
  "hot = \<lparr>idle_burst = 70, focus_instability = 70, behavioral_drift = 70, overall = 70\<rparr>"

definition engine3 :: RiskEngine where
  "engine3 = \<lparr>smoothing_window = 3, risk_history = [], last_raw_risk = 0,
                last_smoothed_risk = 0, weight_idle_burst = 4 / 10,
                weight_focus_instability = 35 / 100, weight_behavioral_drift = 25 / 100\<rparr>"

definition engine5 :: RiskEngine where
  "engine5 = engine3\<lparr>smoothing_window := 5\<rparr>"

definition engine0 :: RiskEngine where
  "engine0 = engine3\<lparr>smoothing_window := 0\<rparr>"

definition engine3_warm :: RiskEngine where
  "engine3_warm = engine3\<lparr>risk_history := [0, 10]\<rparr>"



definition typing_extractor :: FeatureExtractor where
  "typing_extractor =
     \<lparr>window_duration = 30,
      event_buffer = [KeystrokeEvent 60 KEY_PRESS, KeystrokeEvent 70 KEY_PRESS,
                      KeystrokeEvent 80 KEY_PRESS, KeystrokeEvent 90 KEY_PRESS]\<rparr>"



section \<open>Properties\<close>

subsection \<open>Exceptions and division\<close>

lemma py_bind_Inr: "py_bind (Inr v) f = f v"
  by (simp add: py_bind_def)

lemma py_bind_eq_Inr: "py_bind m f = Inr r \<longleftrightarrow> (\<exists>v. m = Inr v \<and> f v = Inr r)"
  by (cases m) (simp_all add: py_bind_def)

lemma py_div_nonzero: "b \<noteq> 0 \<Longrightarrow> py_div a b = Inr (a / b)"
  by (simp add: py_div_def)

subsection \<open>Activity shift detector\<close>

lemma detect_idle_burst_range:
  assumes "detect_idle_burst d f = Inr v" and "0 \<le> idle_burst_scale d"
  shows "0 \<le> v \<and> v \<le> idle_burst_scale d"
  using assms
  by (auto simp: detect_idle_burst_def Let_def py_bind_eq_Inr split: option.splits if_splits)

lemma detect_focus_instability_range:
  assumes "detect_focus_instability d f = Inr v" and "0 \<le> focus_scale d"
  shows "0 \<le> v \<and> v \<le> focus_scale d"
  using assms
  by (auto simp: detect_focus_instability_def Let_def py_bind_eq_Inr split: option.splits if_splits)

lemma detect_behavioral_drift_range:
  assumes "detect_behavioral_drift d f = Inr v" and "0 \<le> drift_scale d"
  shows "0 \<le> v \<and> v \<le> drift_scale d"
  using assms
  by (auto simp: detect_behavioral_drift_def Let_def py_bind_eq_Inr split: option.splits if_splits)

lemma compute_scores_Inr_cases:
  assumes "compute_scores d f = Inr (s, d')"
  shows "(baseline d = None \<and> s = AnomalyScores_init \<and> d' = d) \<or>
         (\<exists>b ib fi bd. baseline d = Some b \<and> detect_idle_burst d f = Inr ib \<and>
            detect_focus_instability d f = Inr fi \<and> detect_behavioral_drift d f = Inr bd \<and>
            s = \<lparr>idle_burst = ib, focus_instability = fi, behavioral_drift = bd,
                 overall = max ib (max fi bd)\<rparr> \<and>
            d' = push_recent d (max ib (max fi bd)))"
  using assms
  by (auto simp: compute_scores_def Let_def py_bind_eq_Inr split: option.splits)

text \<open>
  Rules B and C never raise once a baseline is set; rule A returns whenever the
  baseline typing speed is not zero. So \<open>compute_scores\<close> returns for every detector
  without a baseline and for every baseline with a nonzero typing speed.
\<close>

lemma detect_focus_instability_total:
  "baseline d = Some b \<Longrightarrow> \<exists>v. detect_focus_instability d f = Inr v"
  by (simp add: detect_focus_instability_def Let_def py_div_def py_bind_def)

lemma detect_behavioral_drift_total:
  "baseline d = Some b \<Longrightarrow> \<exists>v. detect_behavioral_drift d f = Inr v"
  by (simp add: detect_behavioral_drift_def Let_def py_div_def py_bind_def)

lemma detect_idle_burst_total:
  "baseline d = Some b \<Longrightarrow> bl_typing_speed b \<noteq> 0 \<Longrightarrow> \<exists>v. detect_idle_burst d f = Inr v"
  by (simp add: detect_idle_burst_def Let_def py_div_def py_bind_def)

lemma compute_scores_total:
  assumes "\<forall>b. baseline d = Some b \<longrightarrow> bl_typing_speed b \<noteq> 0"
  shows "\<exists>s d'. compute_scores d f = Inr (s, d')"
proof (cases "baseline d")
  case None
  then show ?thesis by (simp add: compute_scores_def)
next
  case (Some b)
  then have nz: "bl_typing_speed b \<noteq> 0" using assms by simp
  obtain ib where ib: "detect_idle_burst d f = Inr ib"
    using detect_idle_burst_total [OF Some nz] by blast
  obtain fi where fi: "detect_focus_instability d f = Inr fi"
    using detect_focus_instability_total [OF Some] by blast
  obtain bd where bd: "detect_behavioral_drift d f = Inr bd"
    using detect_behavioral_drift_total [OF Some] by blast
  show ?thesis using Some ib fi bd
    by (simp add: compute_scores_def py_bind_Inr Let_def)
qed

text \<open>
  Claim C1. For a detector with the scales of \<open>__init__\<close> (70 each), with or without
  a baseline, and any feature vector: whenever \<open>compute_scores\<close> returns scores, each
  of \<open>idle_burst\<close>, \<open>focus_instability\<close> and \<open>behavioral_drift\<close> lies in \<open>[0, 70]\<close>, and
  \<open>overall\<close> is their maximum, hence in \<open>[0, 70]\<close> too.
\<close>

theorem compute_scores_bounds:
  assumes "idle_burst_scale d = 70" and "focus_scale d = 70" and "drift_scale d = 70"
    and "compute_scores d features = Inr (s, d')"
  shows "0 \<le> idle_burst s \<and> idle_burst s \<le> 70 \<and>
         0 \<le> focus_instability s \<and> focus_instability s \<le> 70 \<and>
         0 \<le> behavioral_drift s \<and> behavioral_drift s \<le> 70 \<and>
         overall s = max (idle_burst s) (max (focus_instability s) (behavioral_drift s)) \<and>
         0 \<le> overall s \<and> overall s \<le> 70"
proof -
  from compute_scores_Inr_cases [OF assms(4)] show ?thesis
  proof (elim disjE conjE exE)
    assume "s = AnomalyScores_init"
    then show ?thesis by (simp add: AnomalyScores_init_def)
  next
    fix b ib fi bd
    assume ib: "detect_idle_burst d features = Inr ib"
      and fi: "detect_focus_instability d features = Inr fi"
      and bd: "detect_behavioral_drift d features = Inr bd"
      and s: "s = \<lparr>idle_burst = ib, focus_instability = fi, behavioral_drift = bd,
                 overall = max ib (max fi bd)\<rparr>"
    have "0 \<le> ib \<and> ib \<le> 70" using detect_idle_burst_range [OF ib] assms(1) by simp
    moreover have "0 \<le> fi \<and> fi \<le> 70"
      using detect_focus_instability_range [OF fi] assms(2) by simp
    moreover have "0 \<le> bd \<and> bd \<le> 70"
      using detect_behavioral_drift_range [OF bd] assms(3) by simp
    ultimately show ?thesis using s by (simp add: le_max_iff_disj)
  qed
qed

lemma scenario_a_scores:
  "compute_scores (ActivityShiftDetector_init (Some scenario_baseline)) scenario_a_features =
     Inr (\<lparr>idle_burst = 70, focus_instability = 0, behavioral_drift = 70, overall = 70\<rparr>,
          (ActivityShiftDetector_init (Some scenario_baseline))\<lparr>recent_scores := [70]\<rparr>)"
  by (simp add: compute_scores_def detect_idle_burst_def detect_focus_instability_def
      detect_behavioral_drift_def ActivityShiftDetector_init_def scenario_baseline_def
      scenario_a_features_def FeatureVector_init_def py_div_def py_bind_def push_recent_def Let_def)

text \<open>
  Claim C1 at scenario A of the spec: a fresh detector with the baseline
  \<open>(200, 2.0, 0.5)\<close> and the features \<open>typing = 400, idle = 5.0\<close> over a 30 second
  window returns the scores \<open>(70, 0, 70)\<close> with \<open>overall = 70\<close>.
\<close>

theorem compute_scores_bounds_witness:
  "idle_burst_scale (ActivityShiftDetector_init (Some scenario_baseline)) = 70 \<and>
   focus_scale (ActivityShiftDetector_init (Some scenario_baseline)) = 70 \<and>
   drift_scale (ActivityShiftDetector_init (Some scenario_baseline)) = 70 \<and>
   compute_scores (ActivityShiftDetector_init (Some scenario_baseline)) scenario_a_features =
     Inr (\<lparr>idle_burst = 70, focus_instability = 0, behavioral_drift = 70, overall = 70\<rparr>,
          (ActivityShiftDetector_init (Some scenario_baseline))\<lparr>recent_scores := [70]\<rparr>) \<and>
   overall \<lparr>idle_burst = 70, focus_instability = 0, behavioral_drift = 70, overall = 70\<rparr>
     \<le> (70::real)"
proof -
  have h1: "idle_burst_scale (ActivityShiftDetector_init (Some scenario_baseline)) = 70"
    and h2: "focus_scale (ActivityShiftDetector_init (Some scenario_baseline)) = 70"
    and h3: "drift_scale (ActivityShiftDetector_init (Some scenario_baseline)) = 70"
    by (simp_all add: ActivityShiftDetector_init_def)
  show ?thesis
    using compute_scores_bounds [OF h1 h2 h3 scenario_a_scores] h1 h2 h3 scenario_a_scores
    by simp
qed

subsection \<open>Baseline builder\<close>

lemma aggregate_baseline_total: "\<exists>p. aggregate_baseline fvs = Inr p"
  by (simp add: aggregate_baseline_def Let_def py_div_def py_bind_def)

lemma build_baseline_total: "\<exists>b'. build_baseline b = Inr b'"
proof -
  obtain p where "aggregate_baseline (if valid_features_loop (feature_history b) = []
      then feature_history b else valid_features_loop (feature_history b)) = Inr p"
    using aggregate_baseline_total by blast
  then show ?thesis
    by (simp add: build_baseline_def Let_def py_bind_Inr)
qed

lemma update_total: "\<exists>b'. update b f t = Inr b'"
  using build_baseline_total
  by (simp add: update_def Let_def split: option.splits)

lemma has_typing_data_loop_iff:
  "has_typing_data_loop fvs \<longleftrightarrow>
     (\<exists>fv \<in> set fvs. avg_typing_speed fv > 5 \<or> key_press_count fv > 2)"
  by (induction fvs) auto

lemma has_typing_data_valid:
  "has_typing_data_loop fvs \<Longrightarrow> valid_features_loop fvs \<noteq> []"
  by (induction fvs) auto

lemma build_baseline_valid:
  assumes "valid_features_loop (feature_history b) \<noteq> []"
  shows "\<exists>p. aggregate_baseline (valid_features_loop (feature_history b)) = Inr p \<and>
           build_baseline b = Inr (b\<lparr>built := Some p, feature_history := []\<rparr>)"
proof -
  from assms have ne: "feature_history b \<noteq> []" by auto
  obtain p where p: "aggregate_baseline (valid_features_loop (feature_history b)) = Inr p"
    using aggregate_baseline_total by blast
  with assms ne show ?thesis
    by (simp add: build_baseline_def Let_def py_bind_Inr)
qed

lemma build_baseline_min_samples:
  "build_baseline b = Inr b' \<Longrightarrow> min_samples_required b' = min_samples_required b"
  by (auto simp: build_baseline_def Let_def py_bind_eq_Inr split: if_splits)

lemma update_min_samples:
  "update b f t = Inr b' \<Longrightarrow> min_samples_required b' = min_samples_required b"
  by (auto simp: update_def Let_def start_calibration_def
      split: if_splits option.splits dest!: build_baseline_min_samples)

lemma builder_step_min_samples:
  "builder_step b c = Inr b' \<Longrightarrow> min_samples_required b' = min_samples_required b"
  by (cases c) (auto simp: start_calibration_def BaselineBuilder_reset_def dest: update_min_samples)

lemma run_builder_append:
  "run_builder b (xs @ ys) = py_bind (run_builder b xs) (\<lambda>b'. run_builder b' ys)"
  by (induction xs arbitrary: b) (auto simp: py_bind_def split: sum.splits)

lemma run_builder_min_samples:
  "run_builder b cs = Inr b' \<Longrightarrow> min_samples_required b' = min_samples_required b"
proof (induction cs arbitrary: b)
  case Nil
  then show ?case by simp
next
  case (Cons c cs)
  then obtain b1 where "builder_step b c = Inr b1" and "run_builder b1 cs = Inr b'"
    by (auto simp: py_bind_eq_Inr)
  then show ?case using Cons.IH builder_step_min_samples by metis
qed

text \<open>No session of the builder raises.\<close>

lemma run_builder_total: "\<exists>b'. run_builder b cs = Inr b'"
proof (induction cs arbitrary: b)
  case Nil
  then show ?case by simp
next
  case (Cons c cs)
  have "\<exists>b1. builder_step b c = Inr b1"
    by (cases c) (simp_all add: update_total)
  then obtain b1 where "builder_step b c = Inr b1" by blast
  with Cons.IH [of b1] show ?case by (simp add: py_bind_Inr)
qed

text \<open>
  An \<open>update\<close> that sets the baseline is either past the calibration duration or
  within it with at least \<open>_min_samples_required\<close> samples in the history.
\<close>

lemma update_calibrates:
  assumes "built b = None" and "update b f t = Inr b'" and "built b' \<noteq> None"
  shows "\<exists>t0. calibration_start b = Some t0 \<and>
           (calibration_duration b < t - t0 \<or>
            (t - t0 \<le> calibration_duration b \<and>
             min_samples_required b \<le> length (feature_history b @ [f])))"
proof (cases "calibration_start b")
  case None
  with assms show ?thesis by (auto simp: update_def start_calibration_def)
next
  case (Some t0)
  show ?thesis
  proof (cases "t - t0 \<le> calibration_duration b")
    case False
    with Some show ?thesis by simp
  next
    case True
    have "min_samples_required b \<le> length (feature_history b @ [f])"
    proof (rule ccontr)
      assume "\<not> ?thesis"
      with assms(1,2) Some True have "b' = b\<lparr>feature_history := feature_history b @ [f]\<rparr>"
        by (simp add: update_def Let_def)
      with assms(1,3) show False by simp
    qed
    with Some True show ?thesis by simp
  qed
qed

lemma update_calibrated_noop: "built b \<noteq> None \<Longrightarrow> update b f t = Inr b"
  by (simp add: update_def)

text \<open>Evaluation of the sessions used below.\<close>

lemma single_press_fields:
  "key_press_count single_press_sample = 1" "avg_typing_speed single_press_sample = 0"
  by (simp_all add: single_press_sample_def FeatureVector_init_def)

lemma aggregate_single_press: "aggregate_baseline [single_press_sample] = Inr zero_baseline"
  by (simp add: aggregate_baseline_def single_press_sample_def FeatureVector_init_def
      zero_baseline_def py_div_def py_bind_def Let_def)

lemma update_first:
  "update (BaselineBuilder_init 180) single_press_sample 0 =
     Inr ((BaselineBuilder_init 180)\<lparr>calibration_start := Some 0\<rparr>)"
  by (simp add: update_def start_calibration_def BaselineBuilder_init_def)

lemma update_second:
  "update ((BaselineBuilder_init 180)\<lparr>calibration_start := Some 0\<rparr>) single_press_sample 10 =
     Inr ((BaselineBuilder_init 180)\<lparr>calibration_start := Some 0,
            feature_history := [single_press_sample]\<rparr>)"
  by (simp add: update_def BaselineBuilder_init_def Let_def)

lemma update_timeout:
  "update ((BaselineBuilder_init 180)\<lparr>calibration_start := Some 0,
             feature_history := [single_press_sample]\<rparr>) single_press_sample 200 =
     Inr ((BaselineBuilder_init 180)\<lparr>calibration_start := Some 0, built := Some zero_baseline\<rparr>)"
  by (simp add: update_def build_baseline_def BaselineBuilder_init_def Let_def
      single_press_fields aggregate_single_press py_bind_def)

lemma builder_timeout_session:
  "run_builder (BaselineBuilder_init 180)
     [Update single_press_sample 0, Update single_press_sample 10,
      Update single_press_sample 200] =
   Inr ((BaselineBuilder_init 180)\<lparr>calibration_start := Some 0, built := Some zero_baseline\<rparr>)"
  by (simp add: update_first update_second update_timeout py_bind_def)

lemma four_samples_session:
  "run_builder (BaselineBuilder_init 180)
     [Update single_press_sample 0, Update single_press_sample 10, Update single_press_sample 20,
      Update single_press_sample 30, Update single_press_sample 40] = Inr four_samples"
  by (simp add: py_bind_def four_samples_def update_def start_calibration_def
      BaselineBuilder_init_def Let_def)

text \<open>
  Claim C2. The claim: \<open>compute_scores\<close> never raises, also for a baseline with typing
  speed 0. The code: a calibration that saw one sample with a single key press and
  then timed out yields the baseline \<open>(0, 2, 0)\<close>; with that baseline and the features
  of scenario A (idle 5 above the idle threshold, typing speed 400 above the typing
  threshold 0), rule A divides by the baseline typing speed and \<open>compute_scores\<close>
  raises \<open>ZeroDivisionError\<close>. Rules B and C guard the same division.
\<close>

theorem compute_scores_zero_baseline_raises:
  "run_builder (BaselineBuilder_init 180)
     [Update single_press_sample 0, Update single_press_sample 10,
      Update single_press_sample 200] =
   Inr ((BaselineBuilder_init 180)\<lparr>calibration_start := Some 0, built := Some zero_baseline\<rparr>) \<and>
   compute_scores (ActivityShiftDetector_init (Some zero_baseline)) scenario_a_features =
     Inl ZeroDivisionError"
proof
  show "run_builder (BaselineBuilder_init 180)
     [Update single_press_sample 0, Update single_press_sample 10,
      Update single_press_sample 200] =
   Inr ((BaselineBuilder_init 180)\<lparr>calibration_start := Some 0, built := Some zero_baseline\<rparr>)"
    by (rule builder_timeout_session)
  show "compute_scores (ActivityShiftDetector_init (Some zero_baseline)) scenario_a_features =
     Inl ZeroDivisionError"
    by (simp add: compute_scores_def detect_idle_burst_def ActivityShiftDetector_init_def
      zero_baseline_def scenario_a_features_def FeatureVector_init_def py_div_def
      py_bind_def Let_def)
qed

text \<open>
  Every calibrated state of a session goes back to one \<open>update\<close> call on a builder
  that was calibrating and not yet calibrated.
\<close>

lemma calibrating_update_exists:
  assumes "run_builder (BaselineBuilder_init d) calls = Inr b" and "is_calibrated b"
  shows "\<exists>pre f t post b0 t0.
           calls = pre @ Update f t # post \<and>
           run_builder (BaselineBuilder_init d) pre = Inr b0 \<and>
           \<not> is_calibrated b0 \<and> update b0 f t = Inr b \<and>
           calibration_start b0 = Some t0 \<and>
           (calibration_duration b0 < t - t0 \<or>
            (t - t0 \<le> calibration_duration b0 \<and> 5 \<le> length (feature_history b0 @ [f])))"
  using assms
proof (induction calls arbitrary: b rule: rev_induct)
  case Nil
  then show ?case by (auto simp: BaselineBuilder_init_def is_calibrated_def)
next
  case (snoc c cs)
  from snoc.prems(1) obtain b1 where r1: "run_builder (BaselineBuilder_init d) cs = Inr b1"
    and st: "builder_step b1 c = Inr b"
    by (auto simp: run_builder_append py_bind_eq_Inr)
  have ms: "min_samples_required b1 = 5"
    using run_builder_min_samples [OF r1] by (simp add: BaselineBuilder_init_def)
  from snoc.prems(2) st obtain f t where c: "c = Update f t"
    by (cases c) (auto simp: is_calibrated_def start_calibration_def BaselineBuilder_reset_def)
  with st have up: "update b1 f t = Inr b" by simp
  show ?case
  proof (cases "is_calibrated b1")
    case True
    then have "b = b1"
      using up update_calibrated_noop [of b1 f t] by (simp add: is_calibrated_def)
    with True snoc.IH [OF r1] obtain pre f' t' post b0 t0 where
      "cs = pre @ Update f' t' # post"
      "run_builder (BaselineBuilder_init d) pre = Inr b0"
      "\<not> is_calibrated b0" "update b0 f' t' = Inr b"
      "calibration_start b0 = Some t0"
      "calibration_duration b0 < t' - t0 \<or>
            (t' - t0 \<le> calibration_duration b0 \<and> 5 \<le> length (feature_history b0 @ [f']))"
      by blast
    then show ?thesis
      by (intro exI [of _ pre] exI [of _ f'] exI [of _ t'] exI [of _ "post @ [c]"]
          exI [of _ b0] exI [of _ t0]) simp
  next
    case False
    then have nb: "built b1 = None" by (simp add: is_calibrated_def)
    from snoc.prems(2) have "built b \<noteq> None" by (simp add: is_calibrated_def)
    from update_calibrates [OF nb up this] ms obtain t0 where
      "calibration_start b1 = Some t0"
      "calibration_duration b1 < t - t0 \<or>
            (t - t0 \<le> calibration_duration b1 \<and> 5 \<le> length (feature_history b1 @ [f]))"
      by auto
    with r1 False up c show ?thesis
      by (intro exI [of _ cs] exI [of _ f] exI [of _ t] exI [of _ "[]"]
          exI [of _ b1] exI [of _ t0]) simp
  qed
qed

text \<open>
  The history of a calibrating builder is the list of the observed samples that
  arrived within the calibration window, in every state a session reaches.
\<close>

lemma observed_snoc: "observed (cs @ [c]) = observe_step (observed cs) c"
  by (simp add: observed_def)

lemma observed_Nil: "observed [] = None"
  by (simp add: observed_def)

lemma build_baseline_frame:
  assumes "build_baseline b = Inr b'"
  shows "calibration_start b' = calibration_start b \<and>
         calibration_duration b' = calibration_duration b \<and>
         (built b' = None \<longrightarrow> b' = b)"
  using assms
  by (auto simp: build_baseline_def Let_def py_bind_eq_Inr split: if_splits)

lemma update_within_window:
  assumes "update b f t = Inr b'" and "built b = None" and "calibration_start b = Some t0"
    and "t - t0 \<le> calibration_duration b"
  shows "b' = b\<lparr>feature_history := feature_history b @ [f]\<rparr> \<or>
         build_baseline (b\<lparr>feature_history := feature_history b @ [f]\<rparr>) = Inr b'"
proof -
  let ?b1 = "b\<lparr>feature_history := feature_history b @ [f]\<rparr>"
  have "update b f t = build_baseline ?b1 \<or> update b f t = Inr ?b1"
    using assms(2,3,4) by (simp add: update_def Let_def)
  with assms(1) show ?thesis by auto
qed

lemma update_past_window:
  assumes "update b f t = Inr b'" and "built b = None" and "calibration_start b = Some t0"
    and "\<not> t - t0 \<le> calibration_duration b"
  shows "build_baseline b = Inr b'"
  using assms by (simp add: update_def Let_def)

lemma update_observed:
  assumes "update b f t = Inr b'" and "built b = None" and "calibration_start b = Some t0"
    and "feature_history b = map fst (filter (in_window (calibration_duration b) t0) xs)"
  shows "calibration_start b' = Some t0 \<and> calibration_duration b' = calibration_duration b \<and>
         (built b' = None \<longrightarrow>
            feature_history b' =
              map fst (filter (in_window (calibration_duration b) t0) (xs @ [(f, t)])))"
proof (cases "t - t0 \<le> calibration_duration b")
  case True
  let ?b1 = "b\<lparr>feature_history := feature_history b @ [f]\<rparr>"
  have h1: "feature_history ?b1 =
      map fst (filter (in_window (calibration_duration b) t0) (xs @ [(f, t)]))"
    using assms(4) True by (simp add: in_window_def)
  have s1: "calibration_start ?b1 = Some t0" using assms(3) by simp
  have d1: "calibration_duration ?b1 = calibration_duration b" by simp
  from update_within_window [OF assms(1,2,3) True]
  show ?thesis
  proof
    assume "b' = ?b1"
    with h1 s1 d1 show ?thesis by simp
  next
    assume bb: "build_baseline ?b1 = Inr b'"
    from build_baseline_frame [OF bb] have
      a: "calibration_start b' = calibration_start ?b1"
      and b: "calibration_duration b' = calibration_duration ?b1"
      and c: "built b' = None \<longrightarrow> b' = ?b1" by blast+
    have "built b' = None \<longrightarrow> feature_history b' =
        map fst (filter (in_window (calibration_duration b) t0) (xs @ [(f, t)]))"
    proof
      assume "built b' = None"
      with c have "b' = ?b1" by blast
      then show "feature_history b' =
        map fst (filter (in_window (calibration_duration b) t0) (xs @ [(f, t)]))"
        using h1 by simp
    qed
    with a b s1 d1 show ?thesis by simp
  qed
next
  case False
  have h0: "feature_history b =
      map fst (filter (in_window (calibration_duration b) t0) (xs @ [(f, t)]))"
    using assms(4) False by (simp add: in_window_def)
  from update_past_window [OF assms(1,2,3) False] have bb: "build_baseline b = Inr b'" .
  from build_baseline_frame [OF bb] have
    a: "calibration_start b' = calibration_start b"
    and b: "calibration_duration b' = calibration_duration b"
    and c: "built b' = None \<longrightarrow> b' = b" by blast+
  have "built b' = None \<longrightarrow> feature_history b' =
      map fst (filter (in_window (calibration_duration b) t0) (xs @ [(f, t)]))"
  proof
    assume "built b' = None"
    with c have "b' = b" by blast
    then show "feature_history b' =
      map fst (filter (in_window (calibration_duration b) t0) (xs @ [(f, t)]))"
      using h0 by simp
  qed
  with a b assms(3) show ?thesis by simp
qed

lemma run_builder_observed:
  assumes "run_builder (BaselineBuilder_init d) calls = Inr b"
  shows "calibration_duration b = d \<and>
         (case observed calls of
            None \<Rightarrow> calibration_start b = None \<and> built b = None
          | Some (t0, xs) \<Rightarrow>
              calibration_start b = Some t0 \<and>
              (built b = None \<longrightarrow> feature_history b = map fst (filter (in_window d t0) xs)))"
  using assms
proof (induction calls arbitrary: b rule: rev_induct)
  case Nil
  then show ?case by (auto simp: BaselineBuilder_init_def observed_Nil)
next
  case (snoc c cs)
  from snoc.prems obtain b1 where r1: "run_builder (BaselineBuilder_init d) cs = Inr b1"
    and st: "builder_step b1 c = Inr b"
    by (auto simp: run_builder_append py_bind_eq_Inr)
  note ih = snoc.IH [OF r1]
  then have d1: "calibration_duration b1 = d" by simp
  show ?case
  proof (cases c)
    case (Start_calibration t)
    with st d1 show ?thesis
      by (auto simp: observed_snoc start_calibration_def)
  next
    case Reset
    with st d1 show ?thesis
      by (auto simp: observed_snoc BaselineBuilder_reset_def)
  next
    case (Update f t)
    with st have up: "update b1 f t = Inr b" by simp
    show ?thesis
    proof (cases "observed cs")
      case None
      with ih have "calibration_start b1 = None" "built b1 = None" by simp_all
      with up have "b = start_calibration b1 t" by (simp add: update_def)
      with d1 None Update show ?thesis
        by (simp add: observed_snoc start_calibration_def)
    next
      case (Some g)
      obtain t0 xs where g: "g = (t0, xs)" by (cases g)
      from ih Some g have cs: "calibration_start b1 = Some t0"
        and hist: "built b1 = None \<longrightarrow> feature_history b1 = map fst (filter (in_window d t0) xs)"
        by simp_all
      show ?thesis
      proof (cases "built b1 = None")
        case True
        with hist d1 have h: "feature_history b1 =
            map fst (filter (in_window (calibration_duration b1) t0) xs)" by simp
        from update_observed [OF up True cs h] d1 Some g Update show ?thesis
          by (simp add: observed_snoc)
      next
        case False
        then have "b = b1" using up by (simp add: update_def)
        with False cs d1 Some g Update show ?thesis
          by (auto simp: observed_snoc)
      qed
    qed
  qed
qed

text \<open>The observed samples are the trailing \<open>update\<close> calls after the call that started
  the calibration.\<close>

lemma observed_Some_calls:
  assumes "observed calls = Some (t0, xs)"
  shows "\<exists>pre0 c. calls = pre0 @ c # map (\<lambda>(f, t). Update f t) xs \<and>
           (c = Start_calibration t0 \<or> (\<exists>f0. c = Update f0 t0 \<and> observed pre0 = None))"
  using assms
proof (induction calls arbitrary: xs rule: rev_induct)
  case Nil
  then show ?case by (simp add: observed_Nil)
next
  case (snoc c cs)
  show ?case
  proof (cases c)
    case (Start_calibration t)
    with snoc.prems have "t = t0" "xs = []" by (simp_all add: observed_snoc)
    with Start_calibration show ?thesis by auto
  next
    case Reset
    with snoc.prems show ?thesis by (simp add: observed_snoc)
  next
    case (Update f t)
    show ?thesis
    proof (cases "observed cs")
      case None
      with snoc.prems Update have "t = t0" "xs = []" by (simp_all add: observed_snoc)
      with Update None show ?thesis by auto
    next
      case (Some g)
      obtain t1 ys where g: "g = (t1, ys)" by (cases g)
      with snoc.prems Update Some have e: "t1 = t0" "xs = ys @ [(f, t)]"
        by (simp_all add: observed_snoc)
      from snoc.IH [of ys] Some g e(1) obtain pre0 c0 where
        "cs = pre0 @ c0 # map (\<lambda>(f, t). Update f t) ys"
        "c0 = Start_calibration t0 \<or> (\<exists>f0. c0 = Update f0 t0 \<and> observed pre0 = None)"
        by auto
      with e(2) Update show ?thesis
        by (intro exI [of _ pre0] exI [of _ c0]) simp
    qed
  qed
qed

lemma typing_sample_fields:
  "avg_typing_speed typing_sample = 240" "key_press_count typing_sample = 120"
  by (simp_all add: typing_sample_def FeatureVector_init_def)

lemma aggregate_early:
  "aggregate_baseline [single_press_sample, single_press_sample, single_press_sample,
     single_press_sample, typing_sample] = Inr early_baseline"
  by (simp add: aggregate_baseline_def single_press_sample_def typing_sample_def
      FeatureVector_init_def early_baseline_def py_div_def py_bind_def Let_def)

lemma update_early:
  "update four_samples typing_sample 100 =
     Inr (four_samples\<lparr>built := Some early_baseline, feature_history := []\<rparr>)"
  by (simp add: four_samples_def BaselineBuilder_init_def update_def build_baseline_def Let_def
      has_typing_data_def single_press_fields typing_sample_fields aggregate_early py_bind_def)

lemma early_session:
  "run_builder (BaselineBuilder_init 180) early_calls =
     Inr (four_samples\<lparr>built := Some early_baseline, feature_history := []\<rparr>)"
proof -
  have e: "early_calls =
      [Update single_press_sample 0, Update single_press_sample 10, Update single_press_sample 20,
       Update single_press_sample 30, Update single_press_sample 40] @
      [Update typing_sample 100]"
    by (simp add: early_calls_def)
  have "run_builder (BaselineBuilder_init 180) early_calls =
      py_bind (run_builder (BaselineBuilder_init 180)
        [Update single_press_sample 0, Update single_press_sample 10,
         Update single_press_sample 20, Update single_press_sample 30,
         Update single_press_sample 40])
        (\<lambda>b'. run_builder b' [Update typing_sample 100])"
    unfolding e by (rule run_builder_append)
  also have "\<dots> = run_builder four_samples [Update typing_sample 100]"
    unfolding four_samples_session py_bind_Inr ..
  also have "\<dots> = Inr (four_samples\<lparr>built := Some early_baseline, feature_history := []\<rparr>)"
    by (simp add: update_early py_bind_Inr)
  finally show ?thesis .
qed

text \<open>
  Claim C5. In every state a session of a fresh builder reaches, \<open>is_calibrated\<close>
  implies: the session consists of calls \<open>pre0\<close>, the call \<open>c\<close> that started the
  calibration at \<open>t0\<close>, the \<open>update\<close> calls \<open>xs\<close> observed since, the \<open>update f t\<close> that
  built the baseline, and later calls; and that \<open>update\<close> either came more than
  \<open>calibration_duration\<close> after \<open>t0\<close> (the timeout), or at least 5 of the samples
  passed to \<open>update\<close> since the start, the last one included, arrived within the
  calibration window. These samples are the history the builder held.
\<close>

theorem calibrated_needs_samples_or_timeout:
  assumes "run_builder (BaselineBuilder_init d) calls = Inr b" and "is_calibrated b"
  shows "\<exists>pre0 c t0 xs f t post b0.
           calls = pre0 @ c # map (\<lambda>(f, t). Update f t) xs @ Update f t # post \<and>
           (c = Start_calibration t0 \<or> (\<exists>f0. c = Update f0 t0 \<and> observed pre0 = None)) \<and>
           observed (pre0 @ c # map (\<lambda>(f, t). Update f t) xs) = Some (t0, xs) \<and>
           run_builder (BaselineBuilder_init d)
             (pre0 @ c # map (\<lambda>(f, t). Update f t) xs) = Inr b0 \<and>
           \<not> is_calibrated b0 \<and> update b0 f t = Inr b \<and>
           calibration_start b0 = Some t0 \<and> calibration_duration b0 = d \<and>
           feature_history b0 = map fst (filter (in_window d t0) xs) \<and>
           (d < t - t0 \<or>
            (t - t0 \<le> d \<and> 5 \<le> length (filter (in_window d t0) (xs @ [(f, t)])) \<and>
             5 \<le> length (feature_history b0 @ [f])))"
proof -
  from calibrating_update_exists [OF assms] obtain pre f t post b0 t0 where
    calls: "calls = pre @ Update f t # post"
    and r0: "run_builder (BaselineBuilder_init d) pre = Inr b0"
    and nc: "\<not> is_calibrated b0" and up: "update b0 f t = Inr b"
    and t0: "calibration_start b0 = Some t0"
    and alt: "calibration_duration b0 < t - t0 \<or>
            (t - t0 \<le> calibration_duration b0 \<and> 5 \<le> length (feature_history b0 @ [f]))"
    by blast
  from nc have nb: "built b0 = None" by (simp add: is_calibrated_def)
  from run_builder_observed [OF r0] t0 nb obtain xs where
    ob: "observed pre = Some (t0, xs)" and d0: "calibration_duration b0 = d"
    and hist: "feature_history b0 = map fst (filter (in_window d t0) xs)"
    by (auto split: option.splits)
  from observed_Some_calls [OF ob] obtain pre0 c where
    pre: "pre = pre0 @ c # map (\<lambda>(f, t). Update f t) xs"
    and c: "c = Start_calibration t0 \<or> (\<exists>f0. c = Update f0 t0 \<and> observed pre0 = None)"
    by blast
  have cnt: "t - t0 \<le> d \<Longrightarrow>
      length (filter (in_window d t0) (xs @ [(f, t)])) = length (feature_history b0 @ [f])"
    by (simp add: hist in_window_def)
  from alt d0 cnt have fin: "d < t - t0 \<or>
          (t - t0 \<le> d \<and> 5 \<le> length (filter (in_window d t0) (xs @ [(f, t)])) \<and>
           5 \<le> length (feature_history b0 @ [f]))"
    by auto
  have calls': "calls = pre0 @ c # map (\<lambda>(f, t). Update f t) xs @ Update f t # post"
    using calls pre by simp
  show ?thesis
    using calls' c ob r0 nc up t0 d0 hist fin unfolding pre
    by (intro exI [of _ pre0] exI [of _ c] exI [of _ t0] exI [of _ xs] exI [of _ f]
        exI [of _ t] exI [of _ post] exI [of _ b0] conjI) assumption+
qed

text \<open>
  Claim C5 at a session that calibrates early: calibration starts at 0, four samples
  arrive until 40 and a fifth, with typing activity, at 100 of 180 seconds; five
  samples were observed within the window and there was no timeout.
\<close>

theorem calibrated_needs_samples_or_timeout_witness:
  "run_builder (BaselineBuilder_init 180) early_calls =
     Inr (four_samples\<lparr>built := Some early_baseline, feature_history := []\<rparr>) \<and>
   is_calibrated (four_samples\<lparr>built := Some early_baseline, feature_history := []\<rparr>) \<and>
   observed [Update single_press_sample 0, Update single_press_sample 10,
             Update single_press_sample 20, Update single_press_sample 30,
             Update single_press_sample 40] =
     Some (0, [(single_press_sample, 10), (single_press_sample, 20), (single_press_sample, 30),
               (single_press_sample, 40)]) \<and>
   length (filter (in_window 180 0)
     ([(single_press_sample, 10), (single_press_sample, 20), (single_press_sample, 30),
       (single_press_sample, 40)] @ [(typing_sample, 100)])) = 5 \<and>
   (\<exists>pre0 c t0 xs f t post b0.
      early_calls = pre0 @ c # map (\<lambda>(f, t). Update f t) xs @ Update f t # post \<and>
      observed (pre0 @ c # map (\<lambda>(f, t). Update f t) xs) = Some (t0, xs) \<and>
      run_builder (BaselineBuilder_init 180)
        (pre0 @ c # map (\<lambda>(f, t). Update f t) xs) = Inr b0 \<and>
      \<not> is_calibrated b0 \<and>
      (180 < t - t0 \<or>
       (t - t0 \<le> 180 \<and> 5 \<le> length (filter (in_window 180 t0) (xs @ [(f, t)])))))"
proof -
  have c: "is_calibrated (four_samples\<lparr>built := Some early_baseline, feature_history := []\<rparr>)"
    by (simp add: is_calibrated_def)
  have o: "observed [Update single_press_sample 0, Update single_press_sample 10,
             Update single_press_sample 20, Update single_press_sample 30,
             Update single_press_sample 40] =
     Some (0, [(single_press_sample, 10), (single_press_sample, 20), (single_press_sample, 30),
               (single_press_sample, 40)])"
    by (simp add: observed_def)
  have l: "length (filter (in_window 180 0)
     ([(single_press_sample, 10), (single_press_sample, 20), (single_press_sample, 30),
       (single_press_sample, 40)] @ [(typing_sample, 100)])) = 5"
    by (simp add: in_window_def)
  from calibrated_needs_samples_or_timeout [OF early_session c]
  have "\<exists>pre0 c t0 xs f t post b0.
      early_calls = pre0 @ c # map (\<lambda>(f, t). Update f t) xs @ Update f t # post \<and>
      observed (pre0 @ c # map (\<lambda>(f, t). Update f t) xs) = Some (t0, xs) \<and>
      run_builder (BaselineBuilder_init 180)
        (pre0 @ c # map (\<lambda>(f, t). Update f t) xs) = Inr b0 \<and>
      \<not> is_calibrated b0 \<and>
      (180 < t - t0 \<or>
       (t - t0 \<le> 180 \<and> 5 \<le> length (filter (in_window 180 t0) (xs @ [(f, t)]))))"
    by (elim exE conjE) (intro exI conjI, assumption+, blast)
  with early_session c o l show ?thesis by (intro conjI)
qed

text \<open>
  Claim C6, as stated, at a concrete session: calibration (duration 180) starts at 0,
  four samples with one key press each (typing speed 0) arrive until 40, and a fifth
  arrives at 100. The history then holds 5 samples, more than half of the duration
  has passed and every sample has a nonzero key-press count, but the baseline is not
  built: \<open>_has_typing_data\<close> asks for a typing speed above 5 or more than 2 key presses.
\<close>

theorem nonzero_key_presses_do_not_calibrate:
  "run_builder (BaselineBuilder_init 180)
     [Update single_press_sample 0, Update single_press_sample 10, Update single_press_sample 20,
      Update single_press_sample 30, Update single_press_sample 40] = Inr four_samples \<and>
   built four_samples = None \<and> calibration_start four_samples = Some 0 \<and>
   100 - 0 \<le> calibration_duration four_samples \<and>
   5 \<le> length (feature_history four_samples @ [single_press_sample]) \<and>
   calibration_duration four_samples * (5 / 10) \<le> 100 - 0 \<and>
   key_press_count single_press_sample \<noteq> 0 \<and>
   update four_samples single_press_sample 100 =
     Inr (four_samples\<lparr>feature_history := feature_history four_samples @ [single_press_sample]\<rparr>) \<and>
   \<not> is_calibrated
       (four_samples\<lparr>feature_history := feature_history four_samples @ [single_press_sample]\<rparr>)"
proof -
  have "update four_samples single_press_sample 100 =
     Inr (four_samples\<lparr>feature_history := feature_history four_samples @ [single_press_sample]\<rparr>)"
    by (simp add: four_samples_def BaselineBuilder_init_def update_def Let_def
        has_typing_data_def single_press_fields)
  moreover have "built four_samples = None \<and> calibration_start four_samples = Some 0 \<and>
     100 - 0 \<le> calibration_duration four_samples \<and>
     5 \<le> length (feature_history four_samples @ [single_press_sample]) \<and>
     calibration_duration four_samples * (5 / 10) \<le> 100 - 0 \<and>
     key_press_count single_press_sample \<noteq> 0 \<and>
     \<not> is_calibrated
       (four_samples\<lparr>feature_history := feature_history four_samples @ [single_press_sample]\<rparr>)"
    by (simp add: four_samples_def BaselineBuilder_init_def single_press_fields is_calibrated_def)
  ultimately show ?thesis using four_samples_session by blast
qed

text \<open>
  Claim C6, amended. For a calibrating builder, an \<open>update\<close> within the calibration
  window builds the baseline whenever, after the append, (a) the history holds at
  least \<open>_min_samples_required\<close> samples (5), (b) at least half of the calibration
  duration has passed and (c) some sample of the history has a typing speed above 5
  or more than 2 key presses. The baseline is the aggregate of the samples with a
  typing signal, and the history is cleared.
\<close>

theorem update_early_calibration:
  assumes "built b = None" and "calibration_start b = Some t0"
    and "t - t0 \<le> calibration_duration b"
    and "min_samples_required b \<le> length (feature_history b @ [f])"
    and "calibration_duration b * (5 / 10) \<le> t - t0"
    and "\<exists>fv \<in> set (feature_history b @ [f]). avg_typing_speed fv > 5 \<or> key_press_count fv > 2"
  shows "\<exists>b' p. update b f t = Inr b' \<and> is_calibrated b' \<and> built b' = Some p \<and>
           aggregate_baseline (valid_features_loop (feature_history b @ [f])) = Inr p \<and>
           feature_history b' = []"
proof -
  let ?b1 = "b\<lparr>feature_history := feature_history b @ [f]\<rparr>"
  have htd: "has_typing_data ?b1"
    using assms(6) by (simp add: has_typing_data_def has_typing_data_loop_iff)
  then have "valid_features_loop (feature_history ?b1) \<noteq> []"
    by (simp add: has_typing_data_def has_typing_data_valid)
  from build_baseline_valid [OF this] obtain p where
    p: "aggregate_baseline (valid_features_loop (feature_history b @ [f])) = Inr p"
    and bb: "build_baseline ?b1 = Inr (?b1\<lparr>built := Some p, feature_history := []\<rparr>)"
    by auto
  have "update b f t = build_baseline ?b1"
    using assms(1-5) htd by (simp add: update_def Let_def)
  with bb p show ?thesis by (simp add: is_calibrated_def)
qed

text \<open>
  Claim C6, amended, at the builder with four single-press samples: a fifth sample
  with typing speed 240, arriving at 100 of 180 seconds, calibrates the builder.
\<close>

theorem update_early_calibration_witness:
  "built four_samples = None \<and> calibration_start four_samples = Some 0 \<and>
   100 - 0 \<le> calibration_duration four_samples \<and>
   min_samples_required four_samples \<le> length (feature_history four_samples @ [typing_sample]) \<and>
   calibration_duration four_samples * (5 / 10) \<le> 100 - 0 \<and>
   (\<exists>fv \<in> set (feature_history four_samples @ [typing_sample]).
      avg_typing_speed fv > 5 \<or> key_press_count fv > 2) \<and>
   (\<exists>b'. update four_samples typing_sample 100 = Inr b' \<and> is_calibrated b')"
proof -
  have h: "built four_samples = None" "calibration_start four_samples = Some 0"
    "100 - 0 \<le> calibration_duration four_samples"
    "min_samples_required four_samples \<le> length (feature_history four_samples @ [typing_sample])"
    "calibration_duration four_samples * (5 / 10) \<le> 100 - 0"
    "\<exists>fv \<in> set (feature_history four_samples @ [typing_sample]).
      avg_typing_speed fv > 5 \<or> key_press_count fv > 2"
    by (simp_all add: four_samples_def BaselineBuilder_init_def typing_sample_def
        FeatureVector_init_def)
  from update_early_calibration [OF h] h show ?thesis by blast
qed

text \<open>
  Claim C10. On a builder with no baseline and no calibration start, \<open>update f t\<close>
  starts the calibration at \<open>t\<close> and returns: the result is \<open>start_calibration b t\<close>,
  which does not depend on \<open>f\<close>; its history is empty, so the first vector passed to
  \<open>update\<close> is not among the calibration samples.
\<close>

theorem update_uninitialized_discards:
  assumes "built b = None" and "calibration_start b = None"
  shows "update b f t = Inr (start_calibration b t) \<and>
         feature_history (start_calibration b t) = [] \<and>
         calibration_start (start_calibration b t) = Some t \<and>
         built (start_calibration b t) = None"
  using assms by (simp add: update_def start_calibration_def)

text \<open>Claim C10 at a fresh builder and a sample with typing activity.\<close>

theorem update_uninitialized_discards_witness:
  "built (BaselineBuilder_init 180) = None \<and>
   calibration_start (BaselineBuilder_init 180) = None \<and>
   update (BaselineBuilder_init 180) typing_sample 1000 =
     Inr \<lparr>calibration_duration = 180, feature_history = [], built = None,
          calibration_start = Some 1000, min_samples_required = 5\<rparr>"
  using update_uninitialized_discards [of "BaselineBuilder_init 180" typing_sample 1000]
  by (simp add: BaselineBuilder_init_def start_calibration_def)

subsection \<open>Risk engine\<close>

text \<open>\<open>compute_risk\<close> never raises: the division is reached with two or more entries.\<close>

lemma compute_risk_eq:
  "compute_risk e s =
     (let r = weighted_raw e s;
          h = deque_append (smoothing_window e) (risk_history e) r
      in Inr (smoothed_value r h,
              e\<lparr>last_raw_risk := r, risk_history := h,
                last_smoothed_risk := smoothed_value r h\<rparr>))"
proof -
  define r where "r = weighted_raw e s"
  define h where "h = deque_append (smoothing_window e) (risk_history e) r"
  consider "length h = 0" | "length h = 1" | "length h \<ge> 2" by linarith
  then show ?thesis
  proof cases
    case 1
    then show ?thesis
      by (simp add: compute_risk_def Let_def r_def [symmetric] h_def [symmetric]
          py_bind_Inr smoothed_value_def)
  next
    case 2
    then show ?thesis
      by (simp add: compute_risk_def Let_def r_def [symmetric] h_def [symmetric]
          py_bind_Inr smoothed_value_def)
  next
    case 3
    then have nz: "real (length h) - 1 \<noteq> 0" by simp
    from 3 have ne: "h \<noteq> []" "length h \<noteq> Suc 0" "\<not> length h \<le> Suc 0" by auto
    show ?thesis
      using ne
      by (simp add: compute_risk_def Let_def r_def [symmetric] h_def [symmetric]
          py_bind_Inr smoothed_value_def py_div_nonzero [OF nz])
  qed
qed

lemma weighted_raw_range: "0 \<le> weighted_raw e s \<and> weighted_raw e s \<le> 100"
  by (simp add: weighted_raw_def)

lemma compute_risk_returns:
  "\<exists>v e'. compute_risk e s = Inr (v, e') \<and>
     raw_risk e' = weighted_raw e s \<and>
     risk_history e' = deque_append (smoothing_window e) (risk_history e) (weighted_raw e s) \<and>
     v = smoothed_value (weighted_raw e s) (risk_history e') \<and>
     smoothing_window e' = smoothing_window e \<and>
     (\<forall>t. weighted_raw e' t = weighted_raw e t)"
  by (simp add: compute_risk_eq Let_def raw_risk_def weighted_raw_def)

text \<open>
  Claim C3. For an engine with the weights of \<open>__init__\<close> and any anomaly scores,
  \<open>compute_risk\<close> returns, and \<open>raw_risk\<close> of the engine it leaves is
  \<open>0.4 * idle_burst + 0.35 * focus_instability + 0.25 * behavioral_drift\<close> clamped to
  \<open>[0, 100]\<close>.
\<close>

theorem compute_risk_raw:
  assumes "weight_idle_burst e = 4 / 10" and "weight_focus_instability e = 35 / 100"
    and "weight_behavioral_drift e = 25 / 100"
  shows "\<exists>v e'. compute_risk e s = Inr (v, e') \<and>
           raw_risk e' = max 0 (min 100 ((4 / 10) * idle_burst s +
              (35 / 100) * focus_instability s + (25 / 100) * behavioral_drift s)) \<and>
           0 \<le> raw_risk e' \<and> raw_risk e' \<le> 100"
proof -
  have w: "weighted_raw e s = max 0 (min 100 ((4 / 10) * idle_burst s +
              (35 / 100) * focus_instability s + (25 / 100) * behavioral_drift s))"
    unfolding weighted_raw_def assms ..
  obtain v e' where c: "compute_risk e s = Inr (v, e')" and r: "raw_risk e' = weighted_raw e s"
    using compute_risk_returns [of e s] by blast
  from weighted_raw_range [of e s] have "0 \<le> raw_risk e' \<and> raw_risk e' \<le> 100"
    by (simp add: r)
  with c r w show ?thesis by metis
qed

lemma engine3_weights:
  "weight_idle_burst engine3 = 4 / 10" "weight_focus_instability engine3 = 35 / 100"
  "weight_behavioral_drift engine3 = 25 / 100"
  by (simp_all add: engine3_def)

lemma hot_fields:
  "idle_burst hot = 70" "focus_instability hot = 70" "behavioral_drift hot = 70"
  by (simp_all add: hot_def)

text \<open>Claim C3 at a fresh engine and the scores \<open>(70, 70, 70)\<close>: the raw risk is 70.\<close>

theorem compute_risk_raw_witness:
  "weight_idle_burst engine3 = 4 / 10 \<and> weight_focus_instability engine3 = 35 / 100 \<and>
   weight_behavioral_drift engine3 = 25 / 100 \<and>
   (\<exists>v e'. compute_risk engine3 hot = Inr (v, e') \<and> raw_risk e' = 70)"
proof -
  from compute_risk_raw [OF engine3_weights, of hot]
  obtain v e' where "compute_risk engine3 hot = Inr (v, e')"
    and "raw_risk e' = max 0 (min 100 ((4 / 10) * idle_burst hot +
              (35 / 100) * focus_instability hot + (25 / 100) * behavioral_drift hot))"
    by blast
  then have "compute_risk engine3 hot = Inr (v, e') \<and> raw_risk e' = 70"
    by (simp add: hot_fields)
  with engine3_weights show ?thesis by blast
qed

text \<open>Repeated equal raw scores fill the history from the right.\<close>

lemma tail_const_0: "length h \<le> w \<Longrightarrow> tail_const w r 0 h"
  by (simp add: tail_const_def)

lemma tail_const_full:
  assumes "tail_const w r k h" and "w \<le> k"
  shows "h = replicate w r"
proof -
  from assms(2) have m: "min k w = w" by simp
  from assms(1) obtain pre where h: "h = pre @ replicate w r" and l: "length h \<le> w"
    unfolding tail_const_def m by blast
  from h l have "pre = []" by simp
  with h show ?thesis by simp
qed

lemma tail_const_step:
  assumes "tail_const w r k h"
  shows "tail_const w r (Suc k) (deque_append w h r)"
proof -
  from assms obtain pre where h: "h = pre @ replicate (min k w) r" and l: "length h \<le> w"
    by (auto simp: tail_const_def)
  have app: "h @ [r] = pre @ replicate (Suc (min k w)) r"
    by (simp add: h replicate_append_same)
  show ?thesis
  proof (cases "length (h @ [r]) > w")
    case False
    then have "Suc (min k w) \<le> w" using h by simp
    then have "min (Suc k) w = Suc (min k w)" by simp
    with False app show ?thesis
      by (auto simp: tail_const_def deque_append_def Let_def)
  next
    case True
    with l have lw: "length h = w" by simp
    show ?thesis
    proof (cases pre)
      case Nil
      with h lw have mk: "min k w = w" by simp
      then have "h @ [r] = replicate (Suc w) r" using app Nil by simp
      then have "deque_append w h r = replicate w r"
        by (simp add: deque_append_def Let_def)
      moreover have "min (Suc k) w = w" using mk by simp
      ultimately show ?thesis by (simp add: tail_const_def)
    next
      case (Cons p ps)
      with h lw have "Suc (min k w) \<le> w" by simp
      then have m: "min (Suc k) w = Suc (min k w)" by simp
      have "deque_append w h r = ps @ replicate (Suc (min k w)) r"
        using True app Cons by (simp add: deque_append_def Let_def)
      moreover have "length (deque_append w h r) \<le> w"
        using True lw by (simp add: deque_append_def Let_def)
      ultimately show ?thesis using m by (auto simp: tail_const_def)
    qed
  qed
qed

lemma smoothed_value_replicate: "smoothed_value r (replicate w r) = r"
proof (cases "w \<le> 1")
  case True
  then show ?thesis by (simp add: smoothed_value_def)
next
  case False
  then have "2 \<le> w" by simp
  then obtain m where w: "w = Suc (Suc m)"
    by (auto simp: numeral_2_eq_2 Suc_le_eq dest!: less_imp_Suc_add)
  have "replicate w r = replicate (Suc m) r @ [r]"
    unfolding w by (simp add: replicate_append_same)
  then have "butlast (replicate w r) = replicate (Suc m) r"
    by (simp only: butlast_snoc)
  moreover have "sum_list (replicate (Suc m) r) = real (Suc m) * r"
    by (simp add: sum_list_replicate algebra_simps)
  ultimately show ?thesis
    by (simp add: smoothed_value_def w field_simps)
qed

lemma compute_risk_seq_const:
  assumes "tail_const (smoothing_window e) r k (risk_history e)"
    and "\<forall>s \<in> set ss. weighted_raw e s = r"
    and "ss \<noteq> []"
    and "smoothing_window e \<le> k + length ss"
  shows "\<exists>e'. compute_risk_seq e ss = Inr (Some r, e')"
  using assms
proof (induction ss arbitrary: e k)
  case Nil
  then show ?case by simp
next
  case (Cons s ss)
  obtain v e1 where c: "compute_risk e s = Inr (v, e1)"
    and h1: "risk_history e1 =
               deque_append (smoothing_window e) (risk_history e) (weighted_raw e s)"
    and v: "v = smoothed_value (weighted_raw e s) (risk_history e1)"
    and w1: "smoothing_window e1 = smoothing_window e"
    and r1: "\<forall>t. weighted_raw e1 t = weighted_raw e t"
    using compute_risk_returns [of e s] by blast
  have rs: "weighted_raw e s = r" using Cons.prems(2) by simp
  have t1: "tail_const (smoothing_window e1) r (Suc k) (risk_history e1)"
    using tail_const_step [OF Cons.prems(1)] by (simp add: h1 w1 rs)
  show ?case
  proof (cases "ss = []")
    case True
    then have "smoothing_window e1 \<le> Suc k" using Cons.prems(4) w1 by simp
    from tail_const_full [OF t1 this] have "v = r"
      by (simp add: v rs smoothed_value_replicate)
    then show ?thesis using c True by (simp add: py_bind_Inr)
  next
    case False
    have "\<exists>e'. compute_risk_seq e1 ss = Inr (Some r, e')"
    proof (rule Cons.IH [OF t1 _ False])
      show "\<forall>s\<in>set ss. weighted_raw e1 s = r" using Cons.prems(2) by (simp add: r1)
      show "smoothing_window e1 \<le> Suc k + length ss" using Cons.prems(4) w1 by simp
    qed
    then show ?thesis using c False by (simp add: py_bind_Inr)
  qed
qed

text \<open>Evaluation of \<open>compute_risk\<close> on the engine with window 5.\<close>

lemma engine5_init: "RiskEngine_init 5 = Inr engine5"
  by (simp add: RiskEngine_init_def engine3_def engine5_def)

lemma engine5_raw:
  "weighted_raw (engine5\<lparr>risk_history := h, last_raw_risk := a, last_smoothed_risk := b\<rparr>) calm = 0"
  "weighted_raw (engine5\<lparr>risk_history := h, last_raw_risk := a, last_smoothed_risk := b\<rparr>) hot = 70"
  "weighted_raw engine5 calm = 0" "weighted_raw engine5 hot = 70"
  by (simp_all add: weighted_raw_def hot_def calm_def AnomalyScores_init_def engine3_def
      engine5_def)

lemma engine5_step:
  "compute_risk (engine5\<lparr>risk_history := h, last_raw_risk := a, last_smoothed_risk := b\<rparr>) s =
     (let r = weighted_raw
                (engine5\<lparr>risk_history := h, last_raw_risk := a, last_smoothed_risk := b\<rparr>) s;
          h' = deque_append 5 h r
      in Inr (smoothed_value r h',
              engine5\<lparr>risk_history := h', last_raw_risk := r,
                        last_smoothed_risk := smoothed_value r h'\<rparr>))"
  by (simp add: compute_risk_eq Let_def engine5_def engine3_def)

lemma engine5_first_step:
  "compute_risk engine5 s =
     (let r = weighted_raw engine5 s;
          h' = deque_append 5 [] r
      in Inr (smoothed_value r h',
              engine5\<lparr>risk_history := h', last_raw_risk := r,
                        last_smoothed_risk := smoothed_value r h'\<rparr>))"
  by (simp add: compute_risk_eq Let_def engine5_def engine3_def)

text \<open>
  The engine with window 0, and the bound a \<open>deque\<close> keeps: the history of an engine
  made by \<open>__init__\<close> and driven by \<open>compute_risk\<close> never exceeds the window.
\<close>

lemma engine0_init: "RiskEngine_init 0 = Inr engine0"
  by (simp add: RiskEngine_init_def engine3_def engine0_def)

lemma engine0_step:
  "compute_risk engine0 hot =
     Inr (70, engine0\<lparr>last_raw_risk := 70, last_smoothed_risk := 70\<rparr>)"
  by (simp add: compute_risk_eq Let_def deque_append_def smoothed_value_def weighted_raw_def
      hot_def engine0_def engine3_def)

lemma deque_append_bounded: "length h \<le> w \<Longrightarrow> length (deque_append w h x) \<le> w"
  by (auto simp: deque_append_def Let_def)

lemma compute_risk_history_bounded:
  assumes "compute_risk e s = Inr (v, e')" and "length (risk_history e) \<le> smoothing_window e"
  shows "length (risk_history e') \<le> smoothing_window e'"
  using assms deque_append_bounded [of "risk_history e" "smoothing_window e" "weighted_raw e s"]
  by (auto simp: compute_risk_eq Let_def)

lemma RiskEngine_init_bounded:
  "RiskEngine_init w = Inr e \<Longrightarrow> length (risk_history e) \<le> smoothing_window e"
  by (auto simp: RiskEngine_init_def split: if_splits)

text \<open>
  Claim C4, as stated, at two engines. With smoothing window 5: after five scores
  with raw risk 0, three consecutive scores with raw risk 70 leave the history
  \<open>[0, 0, 70, 70, 70]\<close>, and the third call returns
  \<open>0.6 * 70 + 0.4 * (0 + 0 + 70 + 70) / 4 = 56\<close>, not 70. With smoothing window 0:
  the history stays empty, so it does not hold exactly one entry, and
  \<open>compute_risk\<close> returns the raw risk 70, not \<open>0.6 * 70 + 0.4 *\<close> a mean over no
  entries (which the expression of the source, \<open>sum / (len - 1)\<close>, makes 0).
\<close>

theorem smoothing_counterexample:
  "RiskEngine_init 5 = Inr engine5 \<and>
   compute_risk_seq engine5 [calm, calm, calm, calm, calm, hot, hot, hot] =
     Inr (Some 56, engine5\<lparr>risk_history := [0, 0, 70, 70, 70], last_raw_risk := 70,
                              last_smoothed_risk := 56\<rparr>) \<and>
   weighted_raw engine5 hot = 70 \<and>
   RiskEngine_init 0 = Inr engine0 \<and>
   compute_risk engine0 hot =
     Inr (70, engine0\<lparr>last_raw_risk := 70, last_smoothed_risk := 70\<rparr>) \<and>
   weighted_raw engine0 hot = 70 \<and>
   length (risk_history (engine0\<lparr>last_raw_risk := 70, last_smoothed_risk := 70\<rparr>)) \<noteq> 1 \<and>
   (70::real) \<noteq>
     (6 / 10) * 70 +
     (4 / 10) *
       (sum_list (butlast (risk_history (engine0\<lparr>last_raw_risk := 70,
                                                  last_smoothed_risk := 70\<rparr>))) /
        (real (length (risk_history (engine0\<lparr>last_raw_risk := 70,
                                               last_smoothed_risk := 70\<rparr>))) - 1))"
proof -
  have a: "compute_risk_seq engine5 [calm, calm, calm, calm, calm, hot, hot, hot] =
     Inr (Some 56, engine5\<lparr>risk_history := [0, 0, 70, 70, 70], last_raw_risk := 70,
                              last_smoothed_risk := 56\<rparr>)"
    by (simp add: engine5_step engine5_first_step engine5_raw Let_def py_bind_def
        deque_append_def smoothed_value_def)
  have b: "weighted_raw engine0 hot = 70"
    by (simp add: weighted_raw_def hot_def engine0_def engine3_def)
  have c: "risk_history (engine0\<lparr>last_raw_risk := 70, last_smoothed_risk := 70\<rparr>) = []"
    by (simp add: engine0_def engine3_def)
  have d: "(70::real) \<noteq> (6 / 10) * 70 + (4 / 10) * (sum_list (butlast []) / (real (length ([]::real list)) - 1))"
    by simp
  show ?thesis
    unfolding c using a b d engine5_init engine0_init engine0_step engine5_raw(4)
    by (intro conjI) simp_all
qed

text \<open>
  Claim C4, amended. For every engine and every anomaly scores with raw score \<open>r\<close>,
  \<open>compute_risk\<close> returns; with \<open>h\<close> the history after the append (the old history
  with \<open>r\<close> on the right, its oldest entry dropped when that exceeds the capacity), the
  returned value is \<open>r\<close> when \<open>h\<close> has exactly one entry, or none (capacity 0), and
  otherwise \<open>0.6 * r + 0.4 *\<close> the mean of \<open>h\<close> without its last entry. And for an
  engine whose history is within its capacity, feeding scores with the same raw score
  \<open>r\<close> at least \<open>smoothing_window\<close> consecutive times (3 with the default window), and
  at least once, makes the last returned value \<open>r\<close> within floating tolerance: within
  every tolerance \<open>tol \<ge> 0\<close> in this model, whose arithmetic is exact.
\<close>

theorem compute_risk_smoothing:
  "(\<exists>e'. compute_risk e s =
       Inr (if length (risk_history e') \<le> 1 then weighted_raw e s
            else (6 / 10) * weighted_raw e s +
                 (4 / 10) * (sum_list (butlast (risk_history e')) /
                             (real (length (risk_history e')) - 1)), e') \<and>
       risk_history e' =
         deque_append (smoothing_window e) (risk_history e) (weighted_raw e s)) \<and>
   (length (risk_history e) \<le> smoothing_window e \<and> ss \<noteq> [] \<and>
    smoothing_window e \<le> length ss \<and> (\<forall>t \<in> set ss. weighted_raw e t = r) \<and> 0 \<le> tol \<longrightarrow>
    (\<exists>v e'. compute_risk_seq e ss = Inr (Some v, e') \<and> \<bar>v - r\<bar> \<le> tol))"
proof (intro conjI impI)
  obtain v e' where c: "compute_risk e s = Inr (v, e')"
    and h: "risk_history e' =
              deque_append (smoothing_window e) (risk_history e) (weighted_raw e s)"
    and v: "v = smoothed_value (weighted_raw e s) (risk_history e')"
    using compute_risk_returns [of e s] by blast
  show "\<exists>e'. compute_risk e s =
       Inr (if length (risk_history e') \<le> 1 then weighted_raw e s
            else (6 / 10) * weighted_raw e s +
                 (4 / 10) * (sum_list (butlast (risk_history e')) /
                             (real (length (risk_history e')) - 1)), e') \<and>
       risk_history e' =
         deque_append (smoothing_window e) (risk_history e) (weighted_raw e s)"
    using c h v unfolding smoothed_value_def by blast
next
  assume a: "length (risk_history e) \<le> smoothing_window e \<and> ss \<noteq> [] \<and>
    smoothing_window e \<le> length ss \<and> (\<forall>t \<in> set ss. weighted_raw e t = r) \<and> 0 \<le> tol"
  then have "tail_const (smoothing_window e) r 0 (risk_history e)"
    by (simp add: tail_const_0)
  from compute_risk_seq_const [OF this, of ss] a
  obtain e' where "compute_risk_seq e ss = Inr (Some r, e')" by auto
  moreover have "\<bar>r - r\<bar> \<le> tol" using a by simp
  ultimately show "\<exists>v e'. compute_risk_seq e ss = Inr (Some v, e') \<and> \<bar>v - r\<bar> \<le> tol"
    by blast
qed

lemma engine3_warm_facts:
  "length (risk_history engine3_warm) \<le> smoothing_window engine3_warm"
  "smoothing_window engine3_warm \<le> length [hot, hot, hot]"
  "\<forall>t \<in> set [hot, hot, hot]. weighted_raw engine3_warm t = 70"
  by (simp_all add: engine3_warm_def engine3_def weighted_raw_def hot_def)

text \<open>
  Claim C4, amended, at an engine with the default window 3 and the history
  \<open>[0, 10]\<close>: three scores with raw risk 70 make the smoothed value 70 within the
  tolerance \<open>1e-6\<close>.
\<close>

theorem compute_risk_smoothing_witness:
  "length (risk_history engine3_warm) \<le> smoothing_window engine3_warm \<and>
   [hot, hot, hot] \<noteq> [] \<and>
   smoothing_window engine3_warm \<le> length [hot, hot, hot] \<and>
   weighted_raw engine3_warm hot = 70 \<and> (0::real) \<le> 1 / 1000000 \<and>
   (\<exists>v e'. compute_risk_seq engine3_warm [hot, hot, hot] = Inr (Some v, e') \<and>
      \<bar>v - 70\<bar> \<le> 1 / 1000000)"
proof -
  have ne: "[hot, hot, hot] \<noteq> []" by simp
  have tol: "(0::real) \<le> 1 / 1000000" by simp
  have raw: "weighted_raw engine3_warm hot = 70"
    using engine3_warm_facts(3) by simp
  from compute_risk_smoothing [of engine3_warm hot "[hot, hot, hot]" 70 "1 / 1000000"]
  have "\<exists>v e'. compute_risk_seq engine3_warm [hot, hot, hot] = Inr (Some v, e') \<and>
      \<bar>v - 70\<bar> \<le> 1 / 1000000"
    using engine3_warm_facts ne tol by blast
  with engine3_warm_facts(1,2) ne raw tol show ?thesis by blast
qed

subsection \<open>Feature extractor\<close>

text \<open>
  \<open>compute_features\<close> never raises: every division is behind a test that makes its
  divisor positive. It returns the pruned extractor and the keystroke features below.
\<close>

lemma length_intervals: "length (intervals ps) = length ps - 1"
  by (simp add: intervals_def)

lemma sum_list_intervals:
  "sum_list (intervals ps) = (\<Sum>i = 0..<length ps - 1. ps ! (i + 1) - ps ! i)"
  by (simp add: intervals_def interv_sum_list_conv_sum_set_nat)

lemma prune_buffer_window: "window_duration (prune_buffer fe now) = window_duration fe"
  by (simp add: prune_buffer_def Let_def)

lemma compute_features_returns:
  "\<exists>fv. compute_features fe now = Inr (fv, prune_buffer fe now) \<and>
        key_press_count fv = int (length (press_timestamps (event_buffer (prune_buffer fe now)))) \<and>
        window_start fv = now - window_duration fe \<and> window_end fv = now \<and>
        (2 \<le> length (press_timestamps (event_buffer (prune_buffer fe now))) \<longrightarrow>
           inter_key_interval fv =
             sum_list (intervals (press_timestamps (event_buffer (prune_buffer fe now)))) /
             real (length (intervals (press_timestamps (event_buffer (prune_buffer fe now))))) \<and>
           (0 < window_duration fe \<longrightarrow>
              avg_typing_speed fv =
                real (length (press_timestamps (event_buffer (prune_buffer fe now)))) /
                (now - (now - window_duration fe)) * 60)) \<and>
        (length (press_timestamps (event_buffer (prune_buffer fe now))) < 2 \<longrightarrow>
           inter_key_interval fv = 0 \<and> avg_typing_speed fv = 0)"
proof -
  let ?fe1 = "prune_buffer fe now"
  let ?ps = "press_timestamps (event_buffer ?fe1)"
  have d1: "2 \<le> length ?ps \<Longrightarrow>
      py_div (sum_list (intervals ?ps)) (real (length (intervals ?ps))) =
        Inr (sum_list (intervals ?ps) / real (length (intervals ?ps)))"
    by (rule py_div_nonzero) (simp add: length_intervals)
  have d2: "\<And>x y. 0 < y \<Longrightarrow> py_div x y = Inr (x / y)"
    by (rule py_div_nonzero) simp
  have d3: "idle_durations (event_buffer ?fe1) \<noteq> [] \<Longrightarrow>
      py_div (sum_list (idle_durations (event_buffer ?fe1)))
             (real (length (idle_durations (event_buffer ?fe1)))) =
        Inr (sum_list (idle_durations (event_buffer ?fe1)) /
             real (length (idle_durations (event_buffer ?fe1))))"
    by (rule py_div_nonzero) simp
  show ?thesis
    unfolding compute_features_def Let_def prune_buffer_window
    by (simp add: d1 d2 d3 py_bind_Inr FeatureVector_init_def)
qed





text \<open>\<open>add_event\<close> keeps every event it is given.\<close>

lemma insert_out_of_order_inserts:
  "\<exists>e \<in> set es. ev_timestamp ev < ev_timestamp e \<Longrightarrow> ev \<in> set (insert_out_of_order ev es)"
  by (induction es) auto

lemma add_event_inserts: "ev \<in> set (event_buffer (add_event fe ev))"
proof (cases "event_buffer fe = [] \<or> ev_timestamp (last (event_buffer fe)) \<le> ev_timestamp ev")
  case True
  then show ?thesis by (auto simp: add_event_def)
next
  case False
  then have "last (event_buffer fe) \<in> set (event_buffer fe)"
    and "ev_timestamp ev < ev_timestamp (last (event_buffer fe))"
    by auto
  then have "ev \<in> set (insert_out_of_order ev (event_buffer fe))"
    by (intro insert_out_of_order_inserts) blast
  with False show ?thesis by (simp add: add_event_def)
qed


lemma dropWhile_sorted_filter:
  "sorted (map ev_timestamp es) \<Longrightarrow>
   dropWhile (\<lambda>e. ev_timestamp e < c) es = filter (\<lambda>e. c \<le> ev_timestamp e) es"
proof (induction es)
  case Nil
  then show ?case by simp
next
  case (Cons e es)
  show ?case
  proof (cases "ev_timestamp e < c")
    case True
    with Cons show ?thesis by simp
  next
    case False
    then have "\<forall>x \<in> set es. c \<le> ev_timestamp x" using Cons.prems by auto
    then have "filter (\<lambda>e. c \<le> ev_timestamp e) es = es" by (simp add: filter_id_conv)
    with False show ?thesis by simp
  qed
qed










text \<open>
  Claim C9. For every extractor with a positive window duration and every \<open>now\<close>,
  \<open>compute_features(now)\<close> returns; the window is the buffer after pruning (for a
  buffer ordered by timestamp: the buffered events with timestamp at least
  \<open>now - window_duration\<close>); \<open>key_press_count\<close> is the number \<open>n\<close> of \<open>KEY_PRESS\<close>
  events in it; for \<open>n \<ge> 2\<close>, \<open>inter_key_interval\<close> is the sum of the \<open>n - 1\<close>
  consecutive press-to-press deltas divided by \<open>n - 1\<close> and \<open>avg_typing_speed\<close> is
  \<open>n / (now - window_start) * 60\<close> with \<open>window_start = now - window_duration\<close>; for
  \<open>n < 2\<close> both are 0.
\<close>

theorem compute_features_keystrokes:
  assumes "0 < window_duration fe"
  shows "\<exists>fv fe'. compute_features fe now = Inr (fv, fe') \<and>
           event_buffer fe' =
             dropWhile (\<lambda>e. ev_timestamp e < now - window_duration fe) (event_buffer fe) \<and>
           (sorted (map ev_timestamp (event_buffer fe)) \<longrightarrow>
              event_buffer fe' =
                filter (\<lambda>e. now - window_duration fe \<le> ev_timestamp e) (event_buffer fe)) \<and>
           window_start fv = now - window_duration fe \<and>
           (let ps = map ev_timestamp (filter (\<lambda>e. ev_type e = KEY_PRESS) (event_buffer fe'));
                n = length ps
            in key_press_count fv = int n \<and>
               (2 \<le> n \<longrightarrow>
                  inter_key_interval fv =
                    (\<Sum>i = 0..<n - 1. ps ! (i + 1) - ps ! i) / real (n - 1) \<and>
                  avg_typing_speed fv = real n / (now - window_start fv) * 60) \<and>
               (n < 2 \<longrightarrow> inter_key_interval fv = 0 \<and> avg_typing_speed fv = 0))"
proof -
  let ?fe1 = "prune_buffer fe now"
  from compute_features_returns [of fe now] obtain fv where
    c: "compute_features fe now = Inr (fv, ?fe1)"
    and k: "key_press_count fv = int (length (press_timestamps (event_buffer ?fe1)))"
    and ws: "window_start fv = now - window_duration fe"
    and two: "2 \<le> length (press_timestamps (event_buffer ?fe1)) \<longrightarrow>
           inter_key_interval fv =
             sum_list (intervals (press_timestamps (event_buffer ?fe1))) /
             real (length (intervals (press_timestamps (event_buffer ?fe1)))) \<and>
           (0 < window_duration fe \<longrightarrow>
              avg_typing_speed fv =
                real (length (press_timestamps (event_buffer ?fe1))) /
                (now - (now - window_duration fe)) * 60)"
    and few: "length (press_timestamps (event_buffer ?fe1)) < 2 \<longrightarrow>
           inter_key_interval fv = 0 \<and> avg_typing_speed fv = 0"
    by blast
  have b: "event_buffer ?fe1 =
      dropWhile (\<lambda>e. ev_timestamp e < now - window_duration fe) (event_buffer fe)"
    by (simp add: prune_buffer_def Let_def)
  have f: "sorted (map ev_timestamp (event_buffer fe)) \<longrightarrow>
      event_buffer ?fe1 = filter (\<lambda>e. now - window_duration fe \<le> ev_timestamp e) (event_buffer fe)"
    using dropWhile_sorted_filter [of "event_buffer fe" "now - window_duration fe"] b by simp
  have i: "2 \<le> length ps \<Longrightarrow> real (length (intervals ps)) = real (length ps - 1)" for ps
    by (simp add: length_intervals)
  show ?thesis
    using c k ws two few assms b f
    by (intro exI [of _ fv] exI [of _ ?fe1])
       (simp add: Let_def press_timestamps_def [symmetric] sum_list_intervals length_intervals)
qed

text \<open>
  Claim C9 at the extractor with window 30 and key presses at 60, 70, 80, 90, queried
  at 100: three presses remain, the mean interval is 10 and the speed is
  \<open>3 / 30 * 60 = 6\<close>.
\<close>

theorem compute_features_keystrokes_witness:
  "0 < window_duration typing_extractor \<and>
   (\<exists>fv fe'. compute_features typing_extractor 100 = Inr (fv, fe') \<and>
      key_press_count fv = 3 \<and> inter_key_interval fv = 10 \<and> avg_typing_speed fv = 6)"
proof -
  have w: "0 < window_duration typing_extractor" by (simp add: typing_extractor_def)
  have b: "dropWhile (\<lambda>e. ev_timestamp e < 100 - window_duration typing_extractor)
             (event_buffer typing_extractor) =
           [KeystrokeEvent 70 KEY_PRESS, KeystrokeEvent 80 KEY_PRESS, KeystrokeEvent 90 KEY_PRESS]"
    by (simp add: typing_extractor_def)
  have wd: "window_duration typing_extractor = 30" by (simp add: typing_extractor_def)
  have two: "{0..<2::nat} = {0, 1}" by auto
  from compute_features_keystrokes [OF w, of 100] obtain fv fe' where
    "compute_features typing_extractor 100 = Inr (fv, fe')"
    "key_press_count fv = 3 \<and> inter_key_interval fv = 10 \<and> avg_typing_speed fv = 6"
    unfolding Let_def b by (auto simp: wd two)
  with w show ?thesis by blast
qed

subsection \<open>Anomaly validator\<close>





end
